theory Spec2Isabelle
  imports Complex_Main "HOL-Library.Word" "HOL-Library.Multiset"
begin

section \<open>Data model\<close>

text \<open>
  A \<open>MaskedArray\<close> of the source owns two storages, \<open>_data\<close> and \<open>_mask\<close>. We embed
  one-dimensional arrays as lists; a reduction along an axis of a higher-dimensional array
  is embedded lane by lane (one list per slice along the reduced axis). A
  \<open>MaskedScalar\<close> is the zero-dimensional counterpart.
\<close>

datatype error =
  TypeError | ValueError | NameError | AttributeError | IndexError | ZeroDivisionError
  | PyException

record 'a MaskedArray =
  adata :: "'a list"
  amask :: "bool list"

record 'a MaskedScalar =
  sdata :: 'a
  smask :: bool

text \<open>The invariant \<open>mask.shape == data.shape\<close> of every masked array.\<close>

definition well_formed :: "'a MaskedArray \<Rightarrow> bool" where
  "well_formed a \<longleftrightarrow> length (amask a) = length (adata a)"

text \<open>
  A plain value of the storage engine: a scalar or a one-dimensional array.
\<close>

datatype 'a nd = Scalar 'a | Array "'a list"

text \<open>
  The operands a dispatched operation can receive: a masked array, a masked scalar, a plain
  array, a plain scalar, or the sentinel \<open>X\<close>.
\<close>

datatype 'a operand =
    Masked_Array "'a MaskedArray"
  | Masked_Scalar "'a MaskedScalar"
  | ndarray "'a list"
  | scalar 'a
  | X

text \<open>The result of a dispatched operation: \<open>maskedarray_or_scalar\<close>.\<close>

datatype 'a masked = MArray "'a MaskedArray" | MScalar "'a MaskedScalar"

text \<open>
  The part of a datatype descriptor the masked layer reads. \<open>minvals\<close> and \<open>maxvals\<close> are
  the entries of the storage engine's tables \<open>ntypes._minvals\<close> and \<open>ntypes._maxvals\<close>
  (\<open>None\<close> for a datatype without extrema, such as complex numbers); \<open>kind\<close> is the
  class of the datatype that \<open>mean\<close> and \<open>var\<close> branch on.
\<close>

datatype dkind = BoolK | IntegerK | Float16 | Float32 | Float64

record 'a dtype =
  minvals :: "'a option"
  maxvals :: "'a option"
  kind :: dkind

text \<open>
  \<open>_max_filler = ntypes._minvals\<close> and \<open>_min_filler = ntypes._maxvals\<close>: the filler
  for a maximum is the least value of the datatype and the filler for a minimum the
  greatest one.
\<close>

definition max_filler :: "'a dtype \<Rightarrow> 'a option" where
  "max_filler dt = minvals dt"

definition min_filler :: "'a dtype \<Rightarrow> 'a option" where
  "min_filler dt = maxvals dt"

section \<open>Kernels of the storage engine\<close>

text \<open>
  \<open>d[m] = v\<close> with a boolean index array \<open>m\<close> of the shape of \<open>d\<close>: every position
  where \<open>m\<close> is true receives \<open>v\<close>.
\<close>

definition np_setmask :: "'a list \<Rightarrow> bool list \<Rightarrow> 'a \<Rightarrow> 'a list" where
  "np_setmask d m v = map2 (\<lambda>x b. if b then v else x) d m"

text \<open>
  \<open>np.broadcast_to(v, (n,))\<close>: a scalar and a one-element array are repeated, an array
  of length \<open>n\<close> is kept, anything else raises \<open>ValueError\<close>.
\<close>

fun np_broadcast_to :: "'a nd \<Rightarrow> nat \<Rightarrow> error + 'a list" where
  "np_broadcast_to (Scalar x) n = Inr (replicate n x)"
| "np_broadcast_to (Array xs) n =
     (if length xs = n then Inr xs
      else if length xs = 1 then Inr (replicate n (hd xs))
      else Inl ValueError)"

text \<open>
  A binary elementwise kernel with broadcasting of its two operands.
\<close>

fun np_binary :: "('a \<Rightarrow> 'b \<Rightarrow> 'c) \<Rightarrow> 'a nd \<Rightarrow> 'b nd \<Rightarrow> error + 'c nd" where
  "np_binary f (Scalar x) (Scalar y) = Inr (Scalar (f x y))"
| "np_binary f (Scalar x) (Array ys) = Inr (Array (map (f x) ys))"
| "np_binary f (Array xs) (Scalar y) = Inr (Array (map (\<lambda>x. f x y) xs))"
| "np_binary f (Array xs) (Array ys) =
     (if length xs = length ys then Inr (Array (map2 f xs ys))
      else if length xs = 1 then Inr (Array (map (f (hd xs)) ys))
      else if length ys = 1 then Inr (Array (map (\<lambda>x. f x (hd ys)) xs))
      else Inl ValueError)"

section \<open>Construction, filling and truth value\<close>

text \<open>
  \<open>MaskedArray.__init__(data, mask)\<close> for a plain array \<open>data\<close>: without a mask the
  mask is all false; a boolean array of the shape of the data is taken as it is; any other
  mask is broadcast to the shape of the data.
\<close>

definition MaskedArray_init :: "'a list \<Rightarrow> bool nd option \<Rightarrow> error + 'a MaskedArray" where
  "MaskedArray_init d m =
     (case m of
        None \<Rightarrow> Inr \<lparr>adata = d, amask = replicate (length d) False\<rparr>
      | Some (Array ms) \<Rightarrow>
          if length ms = length d then Inr \<lparr>adata = d, amask = ms\<rparr>
          else (case np_broadcast_to (Array ms) (length d) of
                  Inl e \<Rightarrow> Inl e
                | Inr bm \<Rightarrow> Inr \<lparr>adata = d, amask = bm\<rparr>)
      | Some (Scalar b) \<Rightarrow>
          (case np_broadcast_to (Scalar b) (length d) of
             Inl e \<Rightarrow> Inl e
           | Inr bm \<Rightarrow> Inr \<lparr>adata = d, amask = bm\<rparr>))"

text \<open>
  \<open>MaskedScalar.__init__(data, mask)\<close> for a plain scalar \<open>data\<close>: the mask is
  converted with \<open>np.bool_\<close> and must be a scalar, or \<open>ValueError\<close> is raised.
\<close>

definition MaskedScalar_init :: "'a \<Rightarrow> bool nd \<Rightarrow> error + 'a MaskedScalar" where
  "MaskedScalar_init d m =
     (case m of
        Scalar b \<Rightarrow> Inr \<lparr>sdata = d, smask = b\<rparr>
      | Array bs \<Rightarrow> Inl ValueError)"

text \<open>
  \<open>_get_fill_value(fill_value, minmax)\<close>; the argument \<open>None\<close> for \<open>fill_value\<close> is the
  source's \<open>np._NoValue\<close>.
\<close>

definition get_fill_value ::
  "('a::zero) dtype \<Rightarrow> 'a option \<Rightarrow> string option \<Rightarrow> error + 'a" where
  "get_fill_value dt fill_value minmax =
     (case minmax of
        Some mm \<Rightarrow>
          if fill_value \<noteq> None then Inl PyException
          else if mm = ''max'' then
            (case max_filler dt of None \<Rightarrow> Inl ValueError | Some v \<Rightarrow> Inr v)
          else if mm = ''min'' then
            (case min_filler dt of None \<Rightarrow> Inl ValueError | Some v \<Rightarrow> Inr v)
          else Inl ValueError
      | None \<Rightarrow> (case fill_value of None \<Rightarrow> Inr 0 | Some v \<Rightarrow> Inr v))"

text \<open>
  \<open>MaskedArray.filled\<close>: a plain array in which every masked position holds the fill
  value. (With \<open>view=True\<close> the source writes the fill value into the masked positions of
  the operand's own storage and returns a read-only alias; the values returned are the
  same.)
\<close>

definition filled ::
  "('a::zero) dtype \<Rightarrow> 'a MaskedArray \<Rightarrow> 'a option \<Rightarrow> string option \<Rightarrow> error + 'a list" where
  "filled dt a fill_value minmax =
     (case get_fill_value dt fill_value minmax of
        Inl e \<Rightarrow> Inl e
      | Inr v \<Rightarrow> Inr (np_setmask (adata a) (amask a) v))"

text \<open>\<open>MaskedScalar.filled\<close>.\<close>

definition MaskedScalar_filled ::
  "('a::zero) dtype \<Rightarrow> 'a MaskedScalar \<Rightarrow> 'a option \<Rightarrow> string option \<Rightarrow> error + 'a" where
  "MaskedScalar_filled dt s fill_value minmax =
     (case get_fill_value dt fill_value minmax of
        Inl e \<Rightarrow> Inl e
      | Inr v \<Rightarrow> Inr (if smask s then v else sdata s))"

text \<open>
  \<open>MaskedScalar.__bool__\<close>. The parameter \<open>py_bool\<close> is Python's truth value of the
  stored data, which depends on the datatype of the scalar.
\<close>

definition MaskedScalar_bool :: "('a \<Rightarrow> bool) \<Rightarrow> 'a MaskedScalar \<Rightarrow> bool" where
  "MaskedScalar_bool py_bool s = (if smask s then False else py_bool (sdata s))"

text \<open>\<open>getdata\<close> and \<open>getmask\<close>; \<open>getdata\<close> returns the sentinel itself (\<open>None\<close>).\<close>

fun getdata :: "'a operand \<Rightarrow> 'a nd option" where
  "getdata (Masked_Array a) = Some (Array (adata a))"
| "getdata (Masked_Scalar s) = Some (Scalar (sdata s))"
| "getdata (ndarray xs) = Some (Array xs)"
| "getdata (scalar x) = Some (Scalar x)"
| "getdata X = None"

fun getmask :: "'a operand \<Rightarrow> bool nd" where
  "getmask (Masked_Array a) = Array (amask a)"
| "getmask (Masked_Scalar s) = Scalar (smask s)"
| "getmask _ = Scalar False"

text \<open>
  \<open>get_mask_cls\<close>, for the two classes \<open>MaskedArray\<close> and \<open>MaskedScalar\<close> without
  user-defined subclasses: the result is the class \<open>MaskedArray\<close> (\<open>True\<close>) as soon as
  one argument is a masked array or a masked scalar, and \<open>None\<close> (\<open>False\<close>) otherwise.
\<close>

fun is_masked :: "'a operand \<Rightarrow> bool" where
  "is_masked (Masked_Array a) = True"
| "is_masked (Masked_Scalar s) = True"
| "is_masked _ = False"

definition get_mask_cls :: "'a operand list \<Rightarrow> bool" where
  "get_mask_cls args = list_ex is_masked args"

text \<open>
  \<open>maskedarray_or_scalar(data, mask)\<close>, without an output buffer: a scalar result is
  wrapped by \<open>MaskedScalar\<close>, an array by \<open>MaskedArray\<close>.
\<close>

definition maskedarray_or_scalar :: "'a nd \<Rightarrow> bool nd \<Rightarrow> error + 'a masked" where
  "maskedarray_or_scalar d m =
     (case d of
        Scalar x \<Rightarrow>
          (case MaskedScalar_init x m of Inl e \<Rightarrow> Inl e | Inr s \<Rightarrow> Inr (MScalar s))
      | Array xs \<Rightarrow>
          (case MaskedArray_init xs (Some m) of Inl e \<Rightarrow> Inl e | Inr a \<Rightarrow> Inr (MArray a)))"

text \<open>The two storages of a masked value.\<close>

fun mdata :: "'a masked \<Rightarrow> 'a nd" where
  "mdata (MArray a) = Array (adata a)"
| "mdata (MScalar s) = Scalar (sdata s)"

fun mmask :: "'a masked \<Rightarrow> bool nd" where
  "mmask (MArray a) = Array (amask a)"
| "mmask (MScalar s) = Scalar (smask s)"

fun as_operand :: "'a masked \<Rightarrow> 'a operand" where
  "as_operand (MArray a) = Masked_Array a"
| "as_operand (MScalar s) = Masked_Scalar s"

fun map_nd :: "('a \<Rightarrow> 'b) \<Rightarrow> 'a nd \<Rightarrow> 'b nd" where
  "map_nd f (Scalar x) = Scalar (f x)"
| "map_nd f (Array xs) = Array (map f xs)"

section \<open>Elementwise dispatch\<close>

text \<open>
  \<open>_Masked_UniOp.__call__\<close> without an output buffer: the kernel runs on the data, the
  mask is passed on.
\<close>

definition Masked_UniOp_call :: "('a \<Rightarrow> 'b) \<Rightarrow> 'a masked \<Rightarrow> error + 'b masked" where
  "Masked_UniOp_call f a = maskedarray_or_scalar (map_nd f (mdata a)) (mmask a)"

text \<open>
  \<open>_Masked_BinOp.__call__\<close> without keyword arguments. A sentinel operand becomes the
  pair \<open>(dtype.type(0), True)\<close> of the other operand's datatype; reading the datatype
  of the sentinel itself raises \<open>AttributeError\<close>. The mask is computed before the data;
  a result class \<open>None\<close> has no attribute \<open>ScalarType\<close> (\<open>AttributeError\<close>, for a
  scalar result) and cannot be called (\<open>TypeError\<close>, for an array result).
\<close>

definition BinOp_result ::
  "('a \<Rightarrow> 'a \<Rightarrow> 'b) \<Rightarrow> bool \<Rightarrow> 'a nd \<Rightarrow> bool nd \<Rightarrow> 'a nd \<Rightarrow> bool nd \<Rightarrow> error + 'b masked" where
  "BinOp_result f cls da ma db mb =
     (case np_binary (\<or>) ma mb of
        Inl e \<Rightarrow> Inl e
      | Inr m \<Rightarrow>
          (case np_binary f da db of
             Inl e \<Rightarrow> Inl e
           | Inr result \<Rightarrow>
               if \<not> cls then
                 (case result of Scalar _ \<Rightarrow> Inl AttributeError | Array _ \<Rightarrow> Inl TypeError)
               else maskedarray_or_scalar result m))"

definition Masked_BinOp_call ::
  "(('a::zero) \<Rightarrow> 'a \<Rightarrow> 'b) \<Rightarrow> 'a operand \<Rightarrow> 'a operand \<Rightarrow> error + 'b masked" where
  "Masked_BinOp_call f a b =
     (case getdata a of
        None \<Rightarrow>
          (case getdata b of
             None \<Rightarrow> Inl AttributeError
           | Some db \<Rightarrow>
               BinOp_result f (get_mask_cls [a, b]) (Scalar 0) (Scalar True) db (getmask b))
      | Some da \<Rightarrow>
          (case getdata b of
             None \<Rightarrow>
               BinOp_result f (get_mask_cls [a, b]) da (getmask a) (Scalar 0) (Scalar True)
           | Some db \<Rightarrow>
               BinOp_result f (get_mask_cls [a, b]) da (getmask a) db (getmask b)))"

text \<open>
  \<open>MaskedOperatorMixin._cmp_op\<close>, behind the comparison operators of masked arrays and
  masked scalars: the data are compared first, then the masks are combined.
\<close>

definition cmp_op ::
  "('a::zero) masked \<Rightarrow> 'a operand \<Rightarrow> ('a \<Rightarrow> 'a \<Rightarrow> bool) \<Rightarrow> error + bool masked" where
  "cmp_op self other op =
     (let (db, mb) = (case getdata other of
                        None \<Rightarrow> (Scalar 0, Scalar True)
                      | Some d \<Rightarrow> (d, getmask other))
      in case np_binary op (mdata self) db of
           Inl e \<Rightarrow> Inl e
         | Inr d \<Rightarrow>
             (case np_binary (\<or>) (mmask self) mb of
                Inl e \<Rightarrow> Inl e
              | Inr m \<Rightarrow> maskedarray_or_scalar d m))"

text \<open>
  \<open>ufunc.reduce\<close> of the storage engine over a one-dimensional array: the elements are
  combined from the first one on; an empty array gives the identity of the kernel, and
  \<open>ValueError\<close> when the kernel has none.
\<close>

definition ufunc_reduce :: "('a \<Rightarrow> 'a \<Rightarrow> 'a) \<Rightarrow> 'a option \<Rightarrow> 'a list \<Rightarrow> error + 'a" where
  "ufunc_reduce f identity xs =
     (case xs of
        [] \<Rightarrow> (case identity of None \<Rightarrow> Inl ValueError | Some i \<Rightarrow> Inr i)
      | x # r \<Rightarrow> Inr (foldl f x r))"

text \<open>
  \<open>_Masked_BinOp.__init__\<close>: the fill value of reductions defaults to the identity of
  the kernel. Here \<open>reduce_fill\<close> is the value the source's \<open>self.reduce_fill\<close> gives
  for the datatype of the operand.
\<close>

definition Masked_BinOp_init :: "'a option \<Rightarrow> 'a option \<Rightarrow> 'a option" where
  "Masked_BinOp_init identity reduce_fill =
     (if reduce_fill = None then identity else reduce_fill)"

text \<open>
  \<open>_Masked_BinOp.reduce\<close> of a one-dimensional masked array, without keyword arguments:
  the masked positions of the data are overwritten with the fill value, the kernel
  reduces the data and \<open>logical_and\<close> (identity \<open>True\<close>) reduces the mask.
\<close>

definition Masked_BinOp_reduce ::
  "('a \<Rightarrow> 'a \<Rightarrow> 'a) \<Rightarrow> 'a option \<Rightarrow> 'a option \<Rightarrow> 'a MaskedArray \<Rightarrow> error + 'a masked" where
  "Masked_BinOp_reduce f identity reduce_fill a =
     (case Masked_BinOp_init identity reduce_fill of
        None \<Rightarrow> Inl TypeError
      | Some fill \<Rightarrow>
          (let da = np_setmask (adata a) (amask a) fill in
           case ufunc_reduce f identity da of
             Inl e \<Rightarrow> Inl e
           | Inr result \<Rightarrow>
               (case ufunc_reduce (\<and>) (Some True) (amask a) of
                  Inl e \<Rightarrow> Inl e
                | Inr m \<Rightarrow> maskedarray_or_scalar (Scalar result) (Scalar m))))"

section \<open>Reductions\<close>

text \<open>
  \<open>np.sum\<close>, \<open>np.prod\<close> and \<open>np.all\<close> of the storage engine over a one-dimensional
  array.
\<close>

definition np_sum :: "('a::{plus,zero}) list \<Rightarrow> 'a" where
  "np_sum xs = foldl (+) 0 xs"

definition np_prod :: "('a::{times,one}) list \<Rightarrow> 'a" where
  "np_prod xs = foldl (*) 1 xs"

definition np_all :: "bool list \<Rightarrow> bool" where
  "np_all bs = list_all (\<lambda>b. b) bs"

text \<open>\<open>MaskedArray.count\<close>: the number of elements that are not masked.\<close>

definition count_ma :: "'a MaskedArray \<Rightarrow> int" where
  "count_ma a = int (length (filter (\<lambda>b. \<not> b) (amask a)))"

text \<open>
  \<open>sum\<close> and \<open>prod\<close> of a one-dimensional masked array (no output buffer): the masked
  positions are filled with 0 and 1.
\<close>

definition sum_ma :: "('a::{plus,zero}) dtype \<Rightarrow> 'a MaskedArray \<Rightarrow> error + 'a masked" where
  "sum_ma dt a =
     (case filled dt a (Some 0) None of
        Inl e \<Rightarrow> Inl e
      | Inr d \<Rightarrow> maskedarray_or_scalar (Scalar (np_sum d)) (Scalar (np_all (amask a))))"

definition prod_ma :: "('a::{times,one,zero}) dtype \<Rightarrow> 'a MaskedArray \<Rightarrow> error + 'a masked" where
  "prod_ma dt a =
     (case filled dt a (Some 1) None of
        Inl e \<Rightarrow> Inl e
      | Inr d \<Rightarrow> maskedarray_or_scalar (Scalar (np_prod d)) (Scalar (np_all (amask a))))"

text \<open>
  The same reductions along an axis of a higher-dimensional array, given as the list of
  its lanes along that axis: the result holds one element for each lane.
\<close>

definition lanes_result :: "'a masked list \<Rightarrow> 'a MaskedArray" where
  "lanes_result rs =
     \<lparr>adata = concat (map (\<lambda>r. case mdata r of Scalar x \<Rightarrow> [x] | Array xs \<Rightarrow> xs) rs),
      amask = concat (map (\<lambda>r. case mmask r of Scalar b \<Rightarrow> [b] | Array bs \<Rightarrow> bs) rs)\<rparr>"

fun collect :: "(error + 'a) list \<Rightarrow> error + 'a list" where
  "collect [] = Inr []"
| "collect (Inl e # rs) = Inl e"
| "collect (Inr x # rs) = (case collect rs of Inl e \<Rightarrow> Inl e | Inr xs \<Rightarrow> Inr (x # xs))"

definition along_axis ::
  "('a MaskedArray \<Rightarrow> error + 'b masked) \<Rightarrow> 'a MaskedArray list \<Rightarrow> error + 'b MaskedArray" where
  "along_axis reduction lanes =
     (case collect (map reduction lanes) of
        Inl e \<Rightarrow> Inl e
      | Inr rs \<Rightarrow> Inr (lanes_result rs))"

section \<open>Mean and variance\<close>

text \<open>
  The values \<open>mean\<close> and \<open>var\<close> compute with are double-precision numbers. They are
  idealised here: a finite number is an exact rational (no rounding, no signed zero), and
  the three special values of a division by zero are kept, since the source silences the
  floating-point errors (\<open>np.errstate(divide='ignore', invalid='ignore')\<close>) and a
  division by a zero count returns one of them instead of raising.
\<close>

datatype f8 = Finite rat | NaN | PosInf | NegInf

fun f8_add :: "f8 \<Rightarrow> f8 \<Rightarrow> f8" where
  "f8_add NaN y = NaN"
| "f8_add x NaN = NaN"
| "f8_add (Finite a) (Finite b) = Finite (a + b)"
| "f8_add PosInf NegInf = NaN"
| "f8_add NegInf PosInf = NaN"
| "f8_add PosInf y = PosInf"
| "f8_add NegInf y = NegInf"
| "f8_add (Finite a) y = y"

fun f8_neg :: "f8 \<Rightarrow> f8" where
  "f8_neg (Finite a) = Finite (- a)"
| "f8_neg NaN = NaN"
| "f8_neg PosInf = NegInf"
| "f8_neg NegInf = PosInf"

fun f8_mul :: "f8 \<Rightarrow> f8 \<Rightarrow> f8" where
  "f8_mul NaN y = NaN"
| "f8_mul x NaN = NaN"
| "f8_mul (Finite a) (Finite b) = Finite (a * b)"
| "f8_mul (Finite a) y =
     (if a = 0 then NaN else if 0 < a then y else f8_neg y)"
| "f8_mul x (Finite b) =
     (if b = 0 then NaN else if 0 < b then x else f8_neg x)"
| "f8_mul x y = (if x = y then PosInf else NegInf)"

fun f8_div :: "f8 \<Rightarrow> f8 \<Rightarrow> f8" where
  "f8_div NaN y = NaN"
| "f8_div x NaN = NaN"
| "f8_div (Finite a) (Finite b) =
     (if b \<noteq> 0 then Finite (a / b)
      else if a = 0 then NaN else if 0 < a then PosInf else NegInf)"
| "f8_div (Finite a) y = Finite 0"
| "f8_div x (Finite b) = (if 0 \<le> b then x else f8_neg x)"
| "f8_div x y = NaN"

instantiation f8 :: "{zero,one,plus,minus,times}"
begin

definition zero_f8 :: f8 where "zero_f8 = Finite 0"
definition one_f8 :: f8 where "one_f8 = Finite 1"
definition plus_f8 :: "f8 \<Rightarrow> f8 \<Rightarrow> f8" where "plus_f8 x y = f8_add x y"
definition minus_f8 :: "f8 \<Rightarrow> f8 \<Rightarrow> f8" where "minus_f8 x y = f8_add x (f8_neg y)"
definition times_f8 :: "f8 \<Rightarrow> f8 \<Rightarrow> f8" where "times_f8 x y = f8_mul x y"

instance ..

end

text \<open>The rational number a finite double stands for.\<close>

fun fin :: "f8 \<Rightarrow> rat" where
  "fin (Finite q) = q"
| "fin _ = 0"

text \<open>
  The order in which the storage engine sorts doubles: minus infinity, the finite numbers,
  plus infinity, and NaN after everything else.
\<close>

fun f8_rank :: "f8 \<Rightarrow> nat" where
  "f8_rank NegInf = 0"
| "f8_rank (Finite q) = 1"
| "f8_rank PosInf = 2"
| "f8_rank NaN = 3"

instantiation f8 :: linorder
begin

definition less_eq_f8 :: "f8 \<Rightarrow> f8 \<Rightarrow> bool" where
  "less_eq_f8 x y \<longleftrightarrow>
     f8_rank x < f8_rank y \<or> (f8_rank x = f8_rank y \<and> fin x \<le> fin y)"

definition less_f8 :: "f8 \<Rightarrow> f8 \<Rightarrow> bool" where
  "less_f8 x y \<longleftrightarrow>
     f8_rank x < f8_rank y \<or> (f8_rank x = f8_rank y \<and> fin x < fin y)"

instance
proof
  fix x y z :: f8
  show "(x < y) = (x \<le> y \<and> \<not> y \<le> x)"
    by (auto simp: less_eq_f8_def less_f8_def)
  show "x \<le> x"
    by (simp add: less_eq_f8_def)
  show "x \<le> y \<Longrightarrow> y \<le> z \<Longrightarrow> x \<le> z"
    by (auto simp: less_eq_f8_def)
  show "x \<le> y \<Longrightarrow> y \<le> x \<Longrightarrow> x = y"
    by (cases x; cases y) (auto simp: less_eq_f8_def)
  show "x \<le> y \<or> y \<le> x"
    by (auto simp: less_eq_f8_def)
qed

end

text \<open>\<open>np.true_divide\<close> of a double by an integer count.\<close>

definition true_divide :: "f8 \<Rightarrow> int \<Rightarrow> f8" where
  "true_divide x n = f8_div x (Finite (of_int n))"

text \<open>
  \<open>mean\<close> of a one-dimensional masked array with the default arguments. The count is
  taken first; the sum of the zero-filled data is a scalar of the storage engine, so the
  second branch of the source divides it. For a half-precision array
  (\<open>is_float16_result\<close>) that branch reads the name \<open>arr\<close>, which is bound nowhere in
  the module: Python raises \<open>NameError\<close>. Along an axis the sum is an array and the first
  branch divides it; without an output buffer it reads \<open>arr\<close> for a half-precision array
  as well, so each lane of \<open>along_axis\<close> behaves as the whole array does here.
\<close>

definition mean :: "f8 dtype \<Rightarrow> f8 MaskedArray \<Rightarrow> error + f8 masked" where
  "mean dt a =
     (let rcount = count_ma a;
          is_float16_result = (kind dt = Float16)
      in case filled dt a (Some 0) None of
           Inl e \<Rightarrow> Inl e
         | Inr d \<Rightarrow>
             (let ret = np_sum d;
                  retmask = np_all (amask a)
              in if is_float16_result then Inl NameError
                 else maskedarray_or_scalar (Scalar (true_divide ret rcount)) (Scalar retmask)))"

text \<open>
  \<open>var\<close> of a one-dimensional masked array with the default arguments apart from
  \<open>ddof\<close>. The mean is kept as an array of one element (\<open>keepdims=True\<close>); the
  deviations \<open>a - arrmean\<close> and their squares are computed by the masked binary
  operations, so they carry the mask of \<open>a\<close>; the squares are zero-filled and summed
  (\<open>filled_sum\<close>: \<open>x.filled(0, view=1).sum()\<close>, where the sum of a scalar is the
  scalar); the divisor is \<open>max(count - ddof, 0)\<close>, and the result is masked where it
  is zero.
\<close>

definition filled_sum :: "f8 dtype \<Rightarrow> f8 masked \<Rightarrow> error + f8" where
  "filled_sum dt x =
     (case x of
        MArray xa \<Rightarrow>
          (case filled dt xa (Some 0) None of Inl e \<Rightarrow> Inl e | Inr sq \<Rightarrow> Inr (np_sum sq))
      | MScalar s \<Rightarrow> MaskedScalar_filled dt s (Some 0) None)"

definition var :: "f8 dtype \<Rightarrow> f8 MaskedArray \<Rightarrow> int \<Rightarrow> error + f8 masked" where
  "var dt a ddof =
     (case filled dt a (Some 0) None of
        Inl e \<Rightarrow> Inl e
      | Inr d \<Rightarrow>
          (let arrmean = true_divide (np_sum d) (count_ma a) in
           case Masked_BinOp_call (-) (Masked_Array a) (ndarray [arrmean]) of
             Inl e \<Rightarrow> Inl e
           | Inr x \<Rightarrow>
               (case Masked_BinOp_call (*) (as_operand x) (as_operand x) of
                  Inl e \<Rightarrow> Inl e
                | Inr x2 \<Rightarrow>
                    (case filled_sum dt x2 of
                       Inl e \<Rightarrow> Inl e
                     | Inr ret \<Rightarrow>
                         (let rcount = max (count_ma a - ddof) 0
                          in maskedarray_or_scalar (Scalar (true_divide ret rcount))
                               (Scalar (rcount = 0)))))))"

section \<open>Sorting and searching\<close>

text \<open>
  \<open>np.sort\<close> of the storage engine: the sorted permutation of a one-dimensional array
  (for a boolean array, false before true).
\<close>

definition np_sort :: "('a::linorder) list \<Rightarrow> 'a list" where
  "np_sort xs = sort xs"

text \<open>The functional \<open>sort\<close>: data and mask are sorted independently.\<close>

definition sort_ma :: "('a::{linorder,zero}) dtype \<Rightarrow> 'a MaskedArray \<Rightarrow> error + 'a masked" where
  "sort_ma dt a =
     (case filled dt a None (Some ''min'') of
        Inl e \<Rightarrow> Inl e
      | Inr d \<Rightarrow> maskedarray_or_scalar (Array (np_sort d)) (Array (np_sort (amask a))))"

text \<open>
  The in-place \<open>MaskedArray.sort\<close>, returning the new state of the array. The filler is
  read from the table without the check of \<open>filled\<close> and stored at the masked positions,
  then data and mask are sorted. A missing filler (\<open>None\<close>) is stored too: when nothing
  is masked, nothing is stored and the data are sorted as they are; otherwise the storage
  engine converts \<open>None\<close> to the datatype of the data. The parameter \<open>stored_None\<close>
  is the value that conversion gives, and \<open>None\<close> when the datatype refuses it with
  \<open>TypeError\<close>.
\<close>

definition MaskedArray_sort ::
  "('a::linorder) dtype \<Rightarrow> 'a option \<Rightarrow> 'a MaskedArray \<Rightarrow> error + 'a MaskedArray" where
  "MaskedArray_sort dt stored_None self =
     (case (case min_filler dt of None \<Rightarrow> stored_None | Some v \<Rightarrow> Some v) of
        Some v \<Rightarrow>
          Inr \<lparr>adata = np_sort (np_setmask (adata self) (amask self) v),
               amask = np_sort (amask self)\<rparr>
      | None \<Rightarrow>
          if list_ex (\<lambda>b. b) (amask self) then Inl TypeError
          else Inr \<lparr>adata = np_sort (adata self), amask = np_sort (amask self)\<rparr>)"

text \<open>
  \<open>np.searchsorted\<close> of the storage engine for a sorted array: the insertion index of
  \<open>v\<close> is the number of elements below \<open>v\<close> (\<open>side='left'\<close>) or not above \<open>v\<close>
  (\<open>side='right'\<close>); any other \<open>side\<close> raises \<open>ValueError\<close>.
\<close>

definition np_searchsorted ::
  "('a::linorder) list \<Rightarrow> 'a list \<Rightarrow> string \<Rightarrow> error + int list" where
  "np_searchsorted a v side =
     (if side = ''left'' then Inr (map (\<lambda>x. int (length (filter (\<lambda>y. y < x) a))) v)
      else if side = ''right'' then Inr (map (\<lambda>x. int (length (filter (\<lambda>y. y \<le> x) a))) v)
      else Inl ValueError)"

text \<open>
  \<open>searchsorted(a, v, side)\<close> for a masked query array \<open>v\<close> and a target \<open>a\<close> that is
  a masked array or a plain array. The target is filled with the min-filler of its own
  datatype \<open>dta\<close>, the query with the min-filler of its datatype \<open>dtv\<close>.
  The values of both arrays are read in one ordered type, the one in which the storage
  engine compares them. \<open>v.filled(minmax='min', view=1)\<close> writes the filler into the
  storage of \<open>v\<close>, so the later read of \<open>v._data\<close> sees the filled data. On the
  \<open>side='right'\<close> path the filler of \<open>v\<close> is looked up a second time; had it been
  missing, \<open>filled\<close> would have raised before, so the branch for a missing filler there
  is never reached.
\<close>

definition searchsorted ::
  "('a::{linorder,zero}) dtype \<Rightarrow> 'a dtype \<Rightarrow> 'a operand \<Rightarrow> 'a MaskedArray \<Rightarrow> string
     \<Rightarrow> error + int list" where
  "searchsorted dta dtv a v side =
     (case (case a of
              Masked_Array ma \<Rightarrow>
                (case filled dta ma None (Some ''min'') of
                   Inl e \<Rightarrow> Inl e
                 | Inr aval \<Rightarrow>
                     Inr (int (length (adata ma)) - int (length (filter (\<lambda>b. b) (amask ma))),
                          aval))
            | ndarray xs \<Rightarrow> Inr (int (length xs), xs)
            | _ \<Rightarrow> Inl TypeError) of
        Inl e \<Rightarrow> Inl e
      | Inr (maskleft, aval) \<Rightarrow>
          (case filled dtv v None (Some ''min'') of
             Inl e \<Rightarrow> Inl e
           | Inr vdata \<Rightarrow>
               (case np_searchsorted aval vdata side of
                  Inl e \<Rightarrow> Inl e
                | Inr inds \<Rightarrow>
                    if side = ''left'' then Inr (np_setmask inds (amask v) maskleft)
                    else (case min_filler dtv of
                            None \<Rightarrow> Inl TypeError
                          | Some minval \<Rightarrow>
                              Inr (np_setmask inds
                                     (map2 (\<lambda>x m. x = minval \<and> \<not> m) vdata (amask v))
                                     maskleft)))))"

text \<open>
  \<open>np.lexsort\<close> of the storage engine sorts the index array stably by each key in turn,
  from the first key to the last, so that the last key is the primary one; it raises
  \<open>TypeError\<close> without keys and \<open>ValueError\<close> for keys of different shapes. The masked
  \<open>lexsort\<close> hands it the keys \<open>(k._data, k._mask)\<close> of every masked key \<open>k\<close>.
\<close>

definition np_lexsort_step :: "('k::linorder) list \<Rightarrow> nat list \<Rightarrow> nat list" where
  "np_lexsort_step key inds = sort_key (\<lambda>i. key ! i) inds"

definition lexsort :: "('a::linorder) MaskedArray list \<Rightarrow> error + nat list" where
  "lexsort keys =
     (case keys of
        [] \<Rightarrow> Inl TypeError
      | k # _ \<Rightarrow>
          if list_all (\<lambda>k'. length (adata k') = length (adata k)
                              \<and> length (amask k') = length (adata k)) keys
          then Inr (foldl (\<lambda>inds k. np_lexsort_step (amask k) (np_lexsort_step (adata k) inds))
                      [0..<length (adata k)] keys)
          else Inl ValueError)"

section \<open>Linear algebra\<close>

text \<open>
  \<open>np.dot\<close> of the storage engine for two one-dimensional arrays: the sum of the
  products, \<open>ValueError\<close> for different lengths. For boolean arrays the sum is
  \<open>or\<close> and the product is \<open>and\<close>.
\<close>

definition np_dot ::
  "('a \<Rightarrow> 'a \<Rightarrow> 'a) \<Rightarrow> ('a \<Rightarrow> 'a \<Rightarrow> 'a) \<Rightarrow> 'a \<Rightarrow> 'a list \<Rightarrow> 'a list \<Rightarrow> error + 'a" where
  "np_dot add mul z xs ys =
     (if length xs \<noteq> length ys then Inl ValueError
      else Inr (foldl add z (map2 mul xs ys)))"

text \<open>
  A one-dimensional operand of \<open>dot\<close>: a masked array or a plain array. The
  conversion \<open>cls(a)\<close> keeps a masked array and gives a plain array an all-false mask;
  without a masked operand the class is \<open>None\<close>, and calling it raises \<open>TypeError\<close>.
\<close>

datatype 'a vector = Masked_Vector "'a MaskedArray" | Plain_Vector "'a list"

fun vector_operand :: "'a vector \<Rightarrow> 'a operand" where
  "vector_operand (Masked_Vector a) = Masked_Array a"
| "vector_operand (Plain_Vector xs) = ndarray xs"

fun as_MaskedArray :: "'a vector \<Rightarrow> error + 'a MaskedArray" where
  "as_MaskedArray (Masked_Vector a) = Inr a"
| "as_MaskedArray (Plain_Vector xs) = MaskedArray_init xs None"

text \<open>
  \<open>dot\<close> of two one-dimensional operands, without an output buffer: the data are
  zero-filled; the mask is the negated product of the negated masks.
\<close>

definition dot ::
  "('a::{plus,times,zero}) dtype \<Rightarrow> 'a vector \<Rightarrow> 'a vector \<Rightarrow> error + 'a masked" where
  "dot dt a b =
     (if \<not> get_mask_cls [vector_operand a, vector_operand b] then Inl TypeError
      else case as_MaskedArray a of
        Inl e \<Rightarrow> Inl e
      | Inr ma \<Rightarrow>
          (case as_MaskedArray b of
             Inl e \<Rightarrow> Inl e
           | Inr mb \<Rightarrow>
               (case filled dt ma (Some 0) None of
                  Inl e \<Rightarrow> Inl e
                | Inr da \<Rightarrow>
                    (case filled dt mb (Some 0) None of
                       Inl e \<Rightarrow> Inl e
                     | Inr db \<Rightarrow>
                         (case np_dot (+) (*) 0 da db of
                            Inl e \<Rightarrow> Inl e
                          | Inr result_data \<Rightarrow>
                              (case np_dot (\<or>) (\<and>) False
                                      (map Not (amask ma)) (map Not (amask mb)) of
                                 Inl e \<Rightarrow> Inl e
                               | Inr nm \<Rightarrow>
                                   maskedarray_or_scalar (Scalar result_data)
                                     (Scalar (\<not> nm))))))))"

text \<open>
  \<open>tensordot\<close> of two one-dimensional masked arrays with an integer \<open>axes\<close>. The axes
  lists are \<open>range(-axes, 0)\<close> and \<open>range(0, axes)\<close>; the shape check indexes the shape
  tuples (\<open>IndexError\<close> beyond one dimension) and raises \<open>ValueError\<close> on a mismatch.
  After the check the source evaluates \<open>multiply.reduce(...)\<close>, and the name
  \<open>multiply\<close> is bound nowhere in the module: Python raises \<open>NameError\<close> before any
  product is computed.
\<close>

definition tensordot :: "'a MaskedArray \<Rightarrow> 'a MaskedArray \<Rightarrow> int \<Rightarrow> error + 'a masked" where
  "tensordot a b axes =
     (if 2 \<le> axes then Inl IndexError
      else if axes = 1 \<and> length (adata a) \<noteq> length (adata b) then Inl ValueError
      else Inl NameError)"

section \<open>Notions used to state the properties\<close>

text \<open>
  The round trip of a masked array through \<open>filled\<close> and the constructor:
  \<open>MaskedArray(a.filled(f), a.mask)\<close>.
\<close>

definition refill :: "('a::zero) dtype \<Rightarrow> 'a MaskedArray \<Rightarrow> 'a option \<Rightarrow> error + 'a MaskedArray" where
  "refill dt a f =
     (case filled dt a f None of
        Inl e \<Rightarrow> Inl e
      | Inr d \<Rightarrow> MaskedArray_init d (Some (Array (amask a))))"

text \<open>The values of a masked array that are not masked, in their order.\<close>

definition compressed :: "'a MaskedArray \<Rightarrow> 'a list" where
  "compressed a = map fst (filter (\<lambda>p. \<not> snd p) (zip (adata a) (amask a)))"



text \<open>
  The mask an operand contributes: its own mask, all false for a plain operand, and true
  for the sentinel.
\<close>

fun opmask :: "'a operand \<Rightarrow> bool nd" where
  "opmask X = Scalar True"
| "opmask a = getmask a"

fun wf_operand :: "'a operand \<Rightarrow> bool" where
  "wf_operand (Masked_Array a) = well_formed a"
| "wf_operand _ = True"

text \<open>
  The mask of a result is the elementwise \<open>or\<close> of two masks broadcast to the shape of the
  result.
\<close>

definition mask_is_or :: "'b masked \<Rightarrow> bool nd \<Rightarrow> bool nd \<Rightarrow> bool" where
  "mask_is_or r ma mb =
     (case r of
        MScalar s \<Rightarrow> (\<exists>x y. ma = Scalar x \<and> mb = Scalar y \<and> smask s = (x \<or> y))
      | MArray a \<Rightarrow>
          (\<exists>xs ys. np_broadcast_to ma (length (adata a)) = Inr xs
                 \<and> np_broadcast_to mb (length (adata a)) = Inr ys
                 \<and> amask a = map2 (\<or>) xs ys))"

text \<open>
  The shape of a plain value and of an operand (\<open>None\<close> for zero dimensions), and the
  broadcasting rule of the storage engine for two such shapes: two arrays combine when
  their lengths are equal or one of them is 1; a scalar combines with everything.
\<close>

fun nd_shape :: "'a nd \<Rightarrow> nat option" where
  "nd_shape (Scalar x) = None"
| "nd_shape (Array xs) = Some (length xs)"

fun operand_shape :: "'a operand \<Rightarrow> nat option" where
  "operand_shape (Masked_Array a) = Some (length (adata a))"
| "operand_shape (ndarray xs) = Some (length xs)"
| "operand_shape _ = None"

fun broadcastable :: "nat option \<Rightarrow> nat option \<Rightarrow> bool" where
  "broadcastable (Some n) (Some k) = (n = k \<or> n = 1 \<or> k = 1)"
| "broadcastable _ _ = True"

text \<open>A mask that is a scalar or has the shape of the data it belongs to.\<close>

definition fits :: "bool nd \<Rightarrow> 'a nd \<Rightarrow> bool" where
  "fits m d =
     (case m of
        Scalar _ \<Rightarrow> True
      | Array ms \<Rightarrow> (case d of Scalar _ \<Rightarrow> False | Array ds \<Rightarrow> length ms = length ds))"

text \<open>Every element of the array is masked.\<close>

definition all_masked :: "'a MaskedArray \<Rightarrow> bool" where
  "all_masked a = (\<forall>b \<in> set (amask a). b)"

text \<open>
  The value of \<open>mean\<close> in words: the sum of the zero-filled data divided by the count of
  the unmasked elements. The value of \<open>var\<close> in words: the squared deviations from that
  mean, zero-filled under the mask, summed and divided by \<open>max(count - ddof, 0)\<close>.
\<close>

definition mean_value :: "f8 MaskedArray \<Rightarrow> f8" where
  "mean_value a = true_divide (np_sum (np_setmask (adata a) (amask a) 0)) (count_ma a)"

definition sqdev :: "f8 \<Rightarrow> f8 \<Rightarrow> f8" where
  "sqdev c x = (x - c) * (x - c)"

definition var_value :: "f8 MaskedArray \<Rightarrow> int \<Rightarrow> f8" where
  "var_value a ddof =
     true_divide (np_sum (np_setmask (map (sqdev (mean_value a)) (adata a)) (amask a) 0))
       (max (count_ma a - ddof) 0)"

text \<open>
  Two masked arrays that differ only in the data stored at masked positions: the same
  mask, the same length and the same data wherever the mask is false.
\<close>

definition agree :: "'a MaskedArray \<Rightarrow> 'a MaskedArray \<Rightarrow> bool" where
  "agree a b \<longleftrightarrow>
     amask a = amask b \<and> length (adata a) = length (adata b)
     \<and> (\<forall>i < length (adata a). \<not> amask a ! i \<longrightarrow> adata a ! i = adata b ! i)"

section \<open>Properties\<close>

subsection \<open>Truth value of a masked scalar\<close>

lemma cmp_op_scalars:
  "cmp_op (MScalar s) (Masked_Scalar t) op =
     Inr (MScalar \<lparr>sdata = op (sdata s) (sdata t), smask = (smask s \<or> smask t)\<rparr>)"
  "cmp_op (MScalar s) (scalar y) op =
     Inr (MScalar \<lparr>sdata = op (sdata s) y, smask = smask s\<rparr>)"
  "cmp_op (MScalar s) X op =
     Inr (MScalar \<lparr>sdata = op (sdata s) 0, smask = True\<rparr>)"
  by (simp_all add: cmp_op_def maskedarray_or_scalar_def MaskedScalar_init_def)

text \<open>
  C10. Truth-testing a masked scalar whose mask is set gives \<open>False\<close> whatever the data
  and the datatype (whatever Python's truth value \<open>py_bool\<close> of the data is); an unmasked
  one gives the truth value of its data. Hence the result of comparing a masked scalar
  with the sentinel, or two masked scalars of which one is masked, is falsy, and the
  comparison of two unmasked scalars has the truth value of the plain comparison.
\<close>

theorem MaskedScalar_bool_masked_falsy:
  fixes s t :: "('a::zero) MaskedScalar"
  shows "(smask s \<longrightarrow> MaskedScalar_bool py_bool s = False)
       \<and> (\<not> smask s \<longrightarrow> MaskedScalar_bool py_bool s = py_bool (sdata s))
       \<and> (\<exists>r. cmp_op (MScalar s) X op = Inr (MScalar r)
              \<and> MaskedScalar_bool (\<lambda>b. b) r = False)
       \<and> (\<exists>r. cmp_op (MScalar s) (Masked_Scalar t) op = Inr (MScalar r)
              \<and> MaskedScalar_bool (\<lambda>b. b) r
                  = (\<not> smask s \<and> \<not> smask t \<and> op (sdata s) (sdata t)))"
  by (auto simp: MaskedScalar_bool_def cmp_op_scalars)

theorem MaskedScalar_bool_masked_falsy_witness:
  "smask \<lparr>sdata = 5::int, smask = True\<rparr>
   \<and> MaskedScalar_bool (\<lambda>d. d \<noteq> 0) \<lparr>sdata = 5::int, smask = True\<rparr> = False
   \<and> \<not> smask \<lparr>sdata = 5::int, smask = False\<rparr>
   \<and> MaskedScalar_bool (\<lambda>d. d \<noteq> 0) \<lparr>sdata = 5::int, smask = False\<rparr> = True"
  using MaskedScalar_bool_masked_falsy
          [of "\<lparr>sdata = 5::int, smask = True\<rparr>" "\<lambda>d. d \<noteq> 0"]
        MaskedScalar_bool_masked_falsy
          [of "\<lparr>sdata = 5::int, smask = False\<rparr>" "\<lambda>d. d \<noteq> 0"]
  by simp

subsection \<open>Filling\<close>

lemma length_np_setmask [simp]:
  "length (np_setmask d m v) = min (length d) (length m)"
  by (simp add: np_setmask_def)

lemma nth_np_setmask:
  "i < length d \<Longrightarrow> i < length m \<Longrightarrow> np_setmask d m v ! i = (if m ! i then v else d ! i)"
  by (simp add: np_setmask_def)

lemma filled_no_minmax:
  "filled dt a f None = Inr (np_setmask (adata a) (amask a) (case f of None \<Rightarrow> 0 | Some v \<Rightarrow> v))"
  by (simp add: filled_def get_fill_value_def split: option.split)

text \<open>
  C7. For every well-formed masked array \<open>a\<close> and every fill value \<open>f\<close> (the default
  included), \<open>MaskedArray(a.filled(f), a.mask)\<close> is constructed without error, has the
  mask of \<open>a\<close> at every position and the data of \<open>a\<close> at every position that is not
  masked.
\<close>

theorem filled_roundtrip:
  assumes "well_formed a"
  shows "\<exists>b. refill dt a f = Inr b \<and> well_formed b \<and> amask b = amask a
           \<and> length (adata b) = length (adata a)
           \<and> (\<forall>i < length (adata a). \<not> amask a ! i \<longrightarrow> adata b ! i = adata a ! i)"
  using assms
  by (simp add: refill_def filled_no_minmax MaskedArray_init_def well_formed_def nth_np_setmask)

theorem filled_roundtrip_witness:
  "well_formed \<lparr>adata = [1, 2, 3 :: int], amask = [False, True, False]\<rparr>
   \<and> refill \<lparr>minvals = None, maxvals = None, kind = IntegerK\<rparr>
        \<lparr>adata = [1, 2, 3 :: int], amask = [False, True, False]\<rparr> (Some 9)
      = Inr \<lparr>adata = [1, 9, 3], amask = [False, True, False]\<rparr>"
proof -
  have w: "well_formed \<lparr>adata = [1, 2, 3 :: int], amask = [False, True, False]\<rparr>"
    by (simp add: well_formed_def)
  from filled_roundtrip [OF w, of "\<lparr>minvals = None, maxvals = None, kind = IntegerK\<rparr>" "Some 9"]
  show ?thesis
    by (simp add: w refill_def filled_no_minmax MaskedArray_init_def np_setmask_def)
qed

subsection \<open>Binary elementwise operations\<close>

lemma map2_replicate_left: "length ys = n \<Longrightarrow> map2 f (replicate n x) ys = map (f x) ys"
  by (induction ys arbitrary: n) auto

lemma map2_replicate_right:
  "length xs = n \<Longrightarrow> map2 f xs (replicate n y) = map (\<lambda>x. f x y) xs"
  by (induction xs arbitrary: n) auto

lemma map2_replicate_both: "map2 f (replicate n x) (replicate n y) = replicate n (f x y)"
  by (induction n) auto

lemma hd_map1: "length xs = Suc 0 \<Longrightarrow> hd (map g xs) = g (hd xs)"
  by (cases xs) auto

lemma np_binary_error: "np_binary f x y = Inl e \<Longrightarrow> e = ValueError"
  by (cases x; cases y) (auto split: if_splits)

lemma BinOp_result_mask:
  assumes "BinOp_result f cls da ma db mb = Inr r" "fits ma da" "fits mb db"
  shows "mask_is_or r ma mb"
  using assms
  by (cases da; cases db; cases ma; cases mb)
     (auto simp: BinOp_result_def mask_is_or_def fits_def maskedarray_or_scalar_def
        MaskedScalar_init_def MaskedArray_init_def map2_replicate_left map2_replicate_right
        map2_replicate_both hd_map1
        split: if_splits sum.splits)

lemma Masked_BinOp_call_mask:
  fixes a b :: "('a::zero) operand"
  assumes "Masked_BinOp_call f a b = Inr r" "wf_operand a" "wf_operand b"
  shows "mask_is_or r (opmask a) (opmask b)"
proof -
  have fa: "\<And>d. getdata a = Some d \<Longrightarrow> fits (getmask a) d \<and> opmask a = getmask a"
    using assms(2) by (cases a) (auto simp: fits_def well_formed_def)
  have fb: "\<And>d. getdata b = Some d \<Longrightarrow> fits (getmask b) d \<and> opmask b = getmask b"
    using assms(3) by (cases b) (auto simp: fits_def well_formed_def)
  have xa: "getdata a = None \<Longrightarrow> opmask a = Scalar True"
    by (cases a) auto
  have xb: "getdata b = None \<Longrightarrow> opmask b = Scalar True"
    by (cases b) auto
  have fx: "\<And>d::'a nd. fits (Scalar True) d" by (simp add: fits_def)
  show ?thesis
    using assms(1) fa fb xa xb
    by (auto simp: Masked_BinOp_call_def fx split: option.splits dest!: BinOp_result_mask)
qed

lemma cmp_op_mask:
  fixes other :: "('a::zero) operand"
  assumes "cmp_op self other op = Inr r" "wf_operand (as_operand self)" "wf_operand other"
  shows "mask_is_or r (mmask self) (opmask other)"
proof -
  have eq: "cmp_op self other op =
      BinOp_result op True (mdata self) (mmask self)
        (case getdata other of None \<Rightarrow> Scalar 0 | Some d \<Rightarrow> d) (opmask other)"
    by (cases other)
       (auto simp: cmp_op_def BinOp_result_def split: sum.splits dest!: np_binary_error)
  have f1: "fits (mmask self) (mdata self)"
    using assms(2) by (cases self) (auto simp: fits_def well_formed_def)
  have f2: "fits (opmask other) (case getdata other of None \<Rightarrow> Scalar 0 | Some d \<Rightarrow> d)"
    using assms(3) by (cases other) (auto simp: fits_def well_formed_def)
  show ?thesis
    using assms(1) BinOp_result_mask [OF _ f1 f2] by (simp add: eq)
qed

lemma X_as_masked_scalar:
  "is_masked b \<Longrightarrow>
     Masked_BinOp_call f X b = Masked_BinOp_call f (Masked_Scalar \<lparr>sdata = 0, smask = True\<rparr>) b"
  "is_masked a \<Longrightarrow>
     Masked_BinOp_call f a X = Masked_BinOp_call f a (Masked_Scalar \<lparr>sdata = 0, smask = True\<rparr>)"
  by (cases b; simp add: Masked_BinOp_call_def get_mask_cls_def)
     (cases a; simp add: Masked_BinOp_call_def get_mask_cls_def)

lemma Masked_BinOp_call_arrays:
  assumes "well_formed x" "well_formed y" "length (adata x) = length (adata y)"
  shows "Masked_BinOp_call f (Masked_Array x) (Masked_Array y) =
           Inr (MArray \<lparr>adata = map2 f (adata x) (adata y),
                        amask = map2 (\<or>) (amask x) (amask y)\<rparr>)"
  using assms
  by (simp add: Masked_BinOp_call_def BinOp_result_def get_mask_cls_def well_formed_def
        maskedarray_or_scalar_def MaskedArray_init_def)

lemma BinOp_result_total:
  assumes "fits ma da" "fits mb db" "broadcastable (nd_shape da) (nd_shape db)"
  shows "\<exists>r. BinOp_result f True da ma db mb = Inr r"
  using assms
  by (cases da; cases db; cases ma; cases mb)
     (auto simp: BinOp_result_def fits_def maskedarray_or_scalar_def
        MaskedScalar_init_def MaskedArray_init_def split: if_splits sum.splits)

lemma BinOp_result_incompatible:
  assumes "fits ma da" "fits mb db" "\<not> broadcastable (nd_shape da) (nd_shape db)"
  shows "BinOp_result f cls da ma db mb = Inl ValueError"
  using assms
  by (cases da; cases db; cases ma; cases mb)
     (auto simp: BinOp_result_def fits_def split: if_splits sum.splits)

lemma getdata_fits:
  "wf_operand a \<Longrightarrow> getdata a = Some d \<Longrightarrow>
     fits (getmask a) d \<and> opmask a = getmask a \<and> nd_shape d = operand_shape a"
  by (cases a) (auto simp: fits_def well_formed_def)

lemma getdata_X: "getdata a = None \<Longrightarrow> a = X"
  by (cases a) auto

lemma fits_Scalar: "fits (Scalar b) d"
  by (simp add: fits_def)

text \<open>
  A dispatched binary call on well-formed operands, one of them masked, returns a result
  whenever the shapes of the operands broadcast, and raises \<open>ValueError\<close> when they do
  not.
\<close>

lemma Masked_BinOp_call_total:
  fixes a b :: "('a::zero) operand"
  assumes "wf_operand a" "wf_operand b" "is_masked a \<or> is_masked b"
    and "broadcastable (operand_shape a) (operand_shape b)"
  shows "\<exists>r. Masked_BinOp_call f a b = Inr r \<and> mask_is_or r (opmask a) (opmask b)"
proof -
  have cls: "get_mask_cls [a, b]" using assms(3) by (auto simp: get_mask_cls_def)
  have "\<exists>r. Masked_BinOp_call f a b = Inr r"
  proof (cases "getdata a")
    case None
    then have a: "a = X" by (rule getdata_X)
    then obtain db where db: "getdata b = Some db" using assms(3) by (cases b) auto
    show ?thesis
      using BinOp_result_total [of "Scalar True" "Scalar 0 :: 'a nd" "getmask b" db f]
            getdata_fits [OF assms(2) db] cls
      by (simp add: Masked_BinOp_call_def None db fits_Scalar)
  next
    case (Some da)
    show ?thesis
    proof (cases "getdata b")
      case None
      show ?thesis
        using BinOp_result_total [of "getmask a" da "Scalar True" "Scalar 0 :: 'a nd" f]
              getdata_fits [OF assms(1) Some] cls
        by (cases da) (simp_all add: Masked_BinOp_call_def None Some fits_Scalar)
    next
      case db: (Some db)
      show ?thesis
        using BinOp_result_total [of "getmask a" da "getmask b" db f]
              getdata_fits [OF assms(1) Some] getdata_fits [OF assms(2) db] cls assms(4)
        by (simp add: Masked_BinOp_call_def db Some)
    qed
  qed
  then show ?thesis
    using Masked_BinOp_call_mask [OF _ assms(1,2)] by blast
qed

lemma Masked_BinOp_call_incompatible:
  fixes a b :: "('a::zero) operand"
  assumes "wf_operand a" "wf_operand b"
    and "\<not> broadcastable (operand_shape a) (operand_shape b)"
  shows "Masked_BinOp_call f a b = Inl ValueError"
proof -
  obtain da db where d: "getdata a = Some da" "getdata b = Some db"
    using assms(3) by (cases a; cases b) auto
  show ?thesis
    using BinOp_result_incompatible [of "getmask a" da "getmask b" db f "get_mask_cls [a, b]"]
          getdata_fits [OF assms(1) d(1)] getdata_fits [OF assms(2) d(2)] assms(3)
    by (simp add: Masked_BinOp_call_def d)
qed

lemma cmp_op_as_BinOp_result:
  "cmp_op self other op =
     BinOp_result op True (mdata self) (mmask self)
       (case getdata other of None \<Rightarrow> Scalar 0 | Some d \<Rightarrow> d) (opmask other)"
  by (cases other)
     (auto simp: cmp_op_def BinOp_result_def split: sum.splits dest!: np_binary_error)

lemma cmp_op_total:
  fixes other :: "('a::zero) operand"
  assumes "wf_operand (as_operand self)" "wf_operand other"
    and "broadcastable (operand_shape (as_operand self)) (operand_shape other)"
  shows "\<exists>r. cmp_op self other op = Inr r \<and> mask_is_or r (mmask self) (opmask other)"
proof -
  have f1: "fits (mmask self) (mdata self)"
    and s1: "nd_shape (mdata self) = operand_shape (as_operand self)"
    using assms(1) by (cases self; auto simp: fits_def well_formed_def)+
  have f2: "fits (opmask other) (case getdata other of None \<Rightarrow> Scalar 0 | Some d \<Rightarrow> d)"
    and s2: "nd_shape (case getdata other of None \<Rightarrow> Scalar 0 | Some d \<Rightarrow> d)
               = operand_shape other"
    using assms(2) by (cases other; auto simp: fits_def well_formed_def)+
  have "\<exists>r. cmp_op self other op = Inr r"
    using BinOp_result_total [OF f1 f2, of op] assms(3)
    by (simp add: cmp_op_as_BinOp_result s1 s2)
  then show ?thesis
    using cmp_op_mask [OF _ assms(1,2)] by blast
qed

text \<open>
  C2. Let \<open>a\<close> and \<open>b\<close> be well-formed operands of any of the five kinds. If one of them
  is a masked array or a masked scalar and their shapes broadcast, the dispatched binary
  call returns a result, and the mask of the result is the elementwise \<open>or\<close> of the masks
  of \<open>a\<close> and \<open>b\<close> broadcast to the shape of the result, where a plain operand counts
  as unmasked and the sentinel as masked; if the shapes do not broadcast, the call raises
  \<open>ValueError\<close>. The same holds for a comparison operator of a masked value \<open>a\<close> with
  \<open>b\<close>. No call returns a result with another mask. Next to a masked operand the
  sentinel gives a result, the same one as a masked scalar whose data is zero. Two
  well-formed masked arrays of the same length give the kernel applied pairwise and the
  masks combined pairwise.
\<close>

theorem binary_mask_is_or:
  fixes a b :: "('a::zero) operand"
  assumes "wf_operand a" "wf_operand b"
  shows "((is_masked a \<or> is_masked b) \<and> broadcastable (operand_shape a) (operand_shape b)
           \<longrightarrow> (\<exists>r. Masked_BinOp_call f a b = Inr r \<and> mask_is_or r (opmask a) (opmask b)))
       \<and> (\<not> broadcastable (operand_shape a) (operand_shape b)
           \<longrightarrow> Masked_BinOp_call f a b = Inl ValueError)
       \<and> (\<forall>r. Masked_BinOp_call f a b = Inr r \<longrightarrow> mask_is_or r (opmask a) (opmask b))
       \<and> (\<forall>self. as_operand self = a \<and> broadcastable (operand_shape a) (operand_shape b)
             \<longrightarrow> (\<exists>r. cmp_op self b op = Inr r \<and> mask_is_or r (opmask a) (opmask b)))
       \<and> (\<forall>self r. as_operand self = a \<longrightarrow> cmp_op self b op = Inr r
             \<longrightarrow> mask_is_or r (opmask a) (opmask b))
       \<and> (is_masked b \<longrightarrow>
            (\<exists>r. Masked_BinOp_call f X b = Inr r
                \<and> Masked_BinOp_call f (Masked_Scalar \<lparr>sdata = 0, smask = True\<rparr>) b = Inr r))
       \<and> (is_masked a \<longrightarrow>
            (\<exists>r. Masked_BinOp_call f a X = Inr r
                \<and> Masked_BinOp_call f a (Masked_Scalar \<lparr>sdata = 0, smask = True\<rparr>) = Inr r))
       \<and> (\<forall>x y. a = Masked_Array x \<and> b = Masked_Array y
               \<and> length (adata x) = length (adata y) \<longrightarrow>
             Masked_BinOp_call f a b
               = Inr (MArray \<lparr>adata = map2 f (adata x) (adata y),
                              amask = map2 (\<or>) (amask x) (amask y)\<rparr>))"
proof (intro conjI allI impI)
  assume "(is_masked a \<or> is_masked b) \<and> broadcastable (operand_shape a) (operand_shape b)"
  then show "\<exists>r. Masked_BinOp_call f a b = Inr r \<and> mask_is_or r (opmask a) (opmask b)"
    using Masked_BinOp_call_total [OF assms] by blast
next
  assume "\<not> broadcastable (operand_shape a) (operand_shape b)"
  then show "Masked_BinOp_call f a b = Inl ValueError"
    using assms by (rule Masked_BinOp_call_incompatible [rotated 2])
next
  fix r assume "Masked_BinOp_call f a b = Inr r"
  then show "mask_is_or r (opmask a) (opmask b)"
    using assms by (rule Masked_BinOp_call_mask)
next
  fix self
  assume s: "as_operand self = a \<and> broadcastable (operand_shape a) (operand_shape b)"
  have "opmask a = mmask self" using s by (cases self) auto
  then show "\<exists>r. cmp_op self b op = Inr r \<and> mask_is_or r (opmask a) (opmask b)"
    using cmp_op_total [of self b op] assms s by auto
next
  fix self r assume s: "as_operand self = a" and c: "cmp_op self b op = Inr r"
  have "opmask a = mmask self" using s by (cases self) auto
  then show "mask_is_or r (opmask a) (opmask b)"
    using cmp_op_mask [OF c] assms s by simp
next
  assume m: "is_masked b"
  obtain r where "Masked_BinOp_call f X b = Inr r"
    using Masked_BinOp_call_total [of X b f] assms(2) m by auto
  then show "\<exists>r. Masked_BinOp_call f X b = Inr r
      \<and> Masked_BinOp_call f (Masked_Scalar \<lparr>sdata = 0, smask = True\<rparr>) b = Inr r"
    using X_as_masked_scalar(1) [OF m, of f] by simp
next
  assume m: "is_masked a"
  have "broadcastable (operand_shape a) (operand_shape (X :: 'a operand))"
    by (cases "operand_shape a") simp_all
  then obtain r where "Masked_BinOp_call f a X = Inr r"
    using Masked_BinOp_call_total [of a X f] assms(1) m by auto
  then show "\<exists>r. Masked_BinOp_call f a X = Inr r
      \<and> Masked_BinOp_call f a (Masked_Scalar \<lparr>sdata = 0, smask = True\<rparr>) = Inr r"
    using X_as_masked_scalar(2) [OF m, of f] by simp
next
  fix x y
  assume "a = Masked_Array x \<and> b = Masked_Array y \<and> length (adata x) = length (adata y)"
  then show "Masked_BinOp_call f a b
      = Inr (MArray \<lparr>adata = map2 f (adata x) (adata y),
                     amask = map2 (\<or>) (amask x) (amask y)\<rparr>)"
    using assms Masked_BinOp_call_arrays [of x y f] by simp
qed

theorem binary_mask_is_or_witness:
  "wf_operand (ndarray [1, 2 :: int])
   \<and> wf_operand (Masked_Scalar \<lparr>sdata = 5 :: int, smask = True\<rparr>)
   \<and> is_masked (Masked_Scalar \<lparr>sdata = 5 :: int, smask = True\<rparr>)
   \<and> broadcastable (operand_shape (ndarray [1, 2 :: int]))
        (operand_shape (Masked_Scalar \<lparr>sdata = 5 :: int, smask = True\<rparr>))
   \<and> Masked_BinOp_call (+) (ndarray [1, 2 :: int])
        (Masked_Scalar \<lparr>sdata = 5, smask = True\<rparr>)
      = Inr (MArray \<lparr>adata = [6, 7], amask = [True, True]\<rparr>)
   \<and> mask_is_or (MArray \<lparr>adata = [6, 7 :: int], amask = [True, True]\<rparr>)
        (Scalar False) (Scalar True)"
proof -
  let ?a = "ndarray [1, 2 :: int]"
  let ?b = "Masked_Scalar \<lparr>sdata = 5 :: int, smask = True\<rparr>"
  have wa: "wf_operand ?a" by simp
  have wb: "wf_operand ?b" by simp
  have mb: "is_masked ?b" by simp
  have bc: "broadcastable (operand_shape ?a) (operand_shape ?b)" by simp
  have ev: "Masked_BinOp_call (+) ?a ?b = Inr (MArray \<lparr>adata = [6, 7], amask = [True, True]\<rparr>)"
    by (simp add: Masked_BinOp_call_def BinOp_result_def get_mask_cls_def
          maskedarray_or_scalar_def MaskedArray_init_def)
  from binary_mask_is_or [OF wa wb, of "(+)"] mb bc
  obtain r where "Masked_BinOp_call (+) ?a ?b = Inr r"
    and "mask_is_or r (opmask ?a) (opmask ?b)"
    by blast
  with ev have "mask_is_or (MArray \<lparr>adata = [6, 7 :: int], amask = [True, True]\<rparr>)
          (opmask ?a) (opmask ?b)"
    by simp
  then show ?thesis using wa wb mb bc ev by simp
qed

subsection \<open>Sorting\<close>

lemma mset_np_setmask:
  "length d = length m \<Longrightarrow>
   mset (np_setmask d m t)
     = mset (compressed \<lparr>adata = d, amask = m\<rparr>)
       + replicate_mset (length (filter (\<lambda>b. b) m)) t"
  by (induction d m rule: list_induct2) (auto simp: np_setmask_def compressed_def)

lemma length_compressed:
  "length d = length m \<Longrightarrow>
   length (compressed \<lparr>adata = d, amask = m\<rparr>) = length (filter (\<lambda>b. \<not> b) m)"
  by (induction d m rule: list_induct2) (auto simp: compressed_def)

lemma sort_np_setmask:
  fixes t :: "'a::linorder"
  assumes "length d = length m" "\<forall>x \<in> set (compressed \<lparr>adata = d, amask = m\<rparr>). x \<le> t"
  shows "sort (np_setmask d m t)
           = sort (compressed \<lparr>adata = d, amask = m\<rparr>)
             @ replicate (length (filter (\<lambda>b. b) m)) t"
  using assms
  by (intro properties_for_sort) (auto simp: mset_np_setmask sorted_append)

lemma mset_bools:
  "mset (m :: bool list)
     = replicate_mset (length (filter (\<lambda>b. \<not> b) m)) False
       + replicate_mset (length (filter (\<lambda>b. b) m)) True"
  by (induction m) auto

lemma sort_bools:
  "sort (m :: bool list)
     = replicate (length (filter (\<lambda>b. \<not> b) m)) False
       @ replicate (length (filter (\<lambda>b. b) m)) True"
  by (intro properties_for_sort) (auto simp: sorted_append mset_bools [symmetric])

lemma compressed_append_replicate:
  "compressed \<lparr>adata = xs @ ys,
               amask = replicate (length xs) False @ replicate (length ys) True\<rparr> = xs"
  by (induction xs) (auto simp: compressed_def filter_empty_conv in_set_zip)

lemma masked_last:
  assumes "i < n + k" "j < n + k" "(replicate n False @ replicate k True) ! i"
          "\<not> (replicate n False @ replicate k True) ! j"
  shows "j < i"
  using assms by (auto simp: nth_append split: if_splits)

text \<open>
  Let \<open>a\<close> be a well-formed masked array none of whose unmasked values sorts after the
  min-filler \<open>t\<close> of its datatype (every array of an integer datatype, and every array of
  doubles without an unmasked NaN). The functional \<open>sort\<close> and the in-place
  \<open>MaskedArray.sort\<close> return the same array \<open>r\<close>: its data are the sorted min-filled
  data of \<open>a\<close>, its mask is the sorted mask of \<open>a\<close>. In \<open>r\<close> the unmasked values are
  in non-decreasing order, every masked position comes after every unmasked position, and
  the unmasked values are exactly the unmasked values of \<open>a\<close> in sorted order.
\<close>

lemma sort_masked_last:
  fixes a :: "('a::{linorder,zero}) MaskedArray"
  assumes "well_formed a" "min_filler dt = Some t" "\<forall>x \<in> set (compressed a). x \<le> t"
  shows "\<exists>r. sort_ma dt a = Inr (MArray r) \<and> MaskedArray_sort dt stored_None a = Inr r
           \<and> adata r = np_sort (np_setmask (adata a) (amask a) t)
           \<and> amask r = np_sort (amask a)
           \<and> well_formed r
           \<and> sorted (compressed r)
           \<and> (\<forall>i j. i < length (amask r) \<and> j < length (amask r)
                    \<and> amask r ! i \<and> \<not> amask r ! j \<longrightarrow> j < i)
           \<and> compressed r = sort (compressed a)"
proof -
  let ?d = "np_sort (np_setmask (adata a) (amask a) t)"
  let ?m = "np_sort (amask a)"
  let ?r = "\<lparr>adata = ?d, amask = ?m\<rparr>"
  let ?n = "length (filter (\<lambda>b. \<not> b) (amask a))"
  let ?k = "length (filter (\<lambda>b. b) (amask a))"
  let ?c = "compressed a"
  have len: "length (adata a) = length (amask a)"
    using assms(1) by (simp add: well_formed_def)
  have a_eq: "a = \<lparr>adata = adata a, amask = amask a\<rparr>" by simp
  have top: "\<forall>x \<in> set (compressed \<lparr>adata = adata a, amask = amask a\<rparr>). x \<le> t"
    using assms(3) by (simp add: compressed_def)
  have d: "?d = sort ?c @ replicate ?k t"
    unfolding np_sort_def using sort_np_setmask [OF len top] a_eq by simp
  have m: "?m = replicate ?n False @ replicate ?k True"
    unfolding np_sort_def by (rule sort_bools)
  have lc: "length ?c = ?n"
    using length_compressed [OF len] a_eq by simp
  have f: "filled dt a None (Some ''min'') = Inr (np_setmask (adata a) (amask a) t)"
    using assms(2) by (simp add: filled_def get_fill_value_def)
  have wr: "well_formed ?r" using len by (simp add: well_formed_def np_sort_def)
  have s1: "sort_ma dt a = Inr (MArray ?r)"
    using len
    by (simp add: sort_ma_def f maskedarray_or_scalar_def MaskedArray_init_def np_sort_def)
  have s2: "MaskedArray_sort dt stored_None a = Inr ?r"
    using assms(2) by (simp add: MaskedArray_sort_def)
  have c: "compressed ?r = sort ?c"
    using compressed_append_replicate [of "sort ?c" "replicate ?k t"] lc by (simp add: d m)
  have l: "\<forall>i j. i < length ?m \<and> j < length ?m \<and> ?m ! i \<and> \<not> ?m ! j \<longrightarrow> j < i"
    unfolding m using masked_last [of _ ?n ?k] by auto
  show ?thesis
    using s1 s2 wr c l by (intro exI [of _ ?r]) simp
qed

lemma sort_masked_last_uint8:
  "sort_ma \<lparr>minvals = Some 0, maxvals = Some (- 1), kind = IntegerK\<rparr>
     \<lparr>adata = [3, 7, 1 :: 8 word], amask = [False, True, False]\<rparr>
   = Inr (MArray \<lparr>adata = [1, 3, 255], amask = [False, False, True]\<rparr>)"
proof -
  let ?a = "\<lparr>adata = [3, 7, 1 :: 8 word], amask = [False, True, False]\<rparr>"
  let ?dt = "\<lparr>minvals = Some 0, maxvals = Some (- 1 :: 8 word), kind = IntegerK\<rparr>"
  have w: "well_formed ?a" by (simp add: well_formed_def)
  have mf: "min_filler ?dt = Some (- 1)" by (simp add: min_filler_def)
  have top: "\<forall>x \<in> set (compressed ?a). x \<le> - 1" by simp
  have sd: "np_sort (np_setmask [3, 7, 1 :: 8 word] [False, True, False] (- 1)) = [1, 3, 255]"
    unfolding np_sort_def np_setmask_def by code_simp
  have sm: "np_sort [False, True, False] = [False, False, True]"
    unfolding np_sort_def by code_simp
  from sort_masked_last [OF w mf top]
  obtain r where "sort_ma ?dt ?a = Inr (MArray r)"
    and "adata r = np_sort (np_setmask (adata ?a) (amask ?a) (- 1))"
    and "amask r = np_sort (amask ?a)"
    by blast
  then show ?thesis
    using sd sm by (cases r) simp
qed

text \<open>
  C4. The masked array of doubles with the data \<open>[nan, 9, 1]\<close> and the mask
  \<open>[False, True, False]\<close> has the unmasked values NaN and 1. Both the functional and
  the in-place sort fill the masked position with the min-filler, plus infinity, and sort
  the data to \<open>[1, inf, nan]\<close>, since NaN sorts after plus infinity; the mask, sorted
  on its own, is \<open>[False, False, True]\<close>. The filler of the masked element then stands
  at an unmasked position, before the NaN, and the unmasked NaN lies under the mask: the
  masked element does not come after every unmasked element, and the unmasked values of
  the result, 1 and plus infinity, are not the unmasked values of the array.
\<close>

theorem sort_nan_displaces_filler:
  "sort_ma \<lparr>minvals = Some NegInf, maxvals = Some PosInf, kind = Float64\<rparr>
     \<lparr>adata = [NaN, Finite 9, Finite 1], amask = [False, True, False]\<rparr>
     = Inr (MArray \<lparr>adata = [Finite 1, PosInf, NaN], amask = [False, False, True]\<rparr>)
   \<and> MaskedArray_sort \<lparr>minvals = Some NegInf, maxvals = Some PosInf, kind = Float64\<rparr> None
       \<lparr>adata = [NaN, Finite 9, Finite 1], amask = [False, True, False]\<rparr>
     = Inr \<lparr>adata = [Finite 1, PosInf, NaN], amask = [False, False, True]\<rparr>
   \<and> compressed \<lparr>adata = [NaN, Finite 9, Finite 1], amask = [False, True, False]\<rparr>
     = [NaN, Finite 1]
   \<and> compressed \<lparr>adata = [Finite 1, PosInf, NaN], amask = [False, False, True]\<rparr>
     = [Finite 1, PosInf]"
proof -
  have d: "np_sort (np_setmask [NaN, Finite 9, Finite 1] [False, True, False] PosInf)
             = [Finite 1, PosInf, NaN]"
    by (simp add: np_sort_def np_setmask_def less_eq_f8_def)
  have m: "np_sort [False, True, False] = [False, False, True]"
    by (simp add: np_sort_def)
  show ?thesis
    by (simp add: sort_ma_def MaskedArray_sort_def filled_def get_fill_value_def
          min_filler_def maskedarray_or_scalar_def MaskedArray_init_def d m compressed_def)
qed

subsection \<open>Searching\<close>

lemma filled_min:
  "min_filler dt = Some t \<Longrightarrow>
   filled dt a None (Some ''min'') = Inr (np_setmask (adata a) (amask a) t)"
  by (simp add: filled_def get_fill_value_def)

lemma count_ma_alt:
  "well_formed a \<Longrightarrow>
   int (length (adata a)) - int (length (filter (\<lambda>b. b) (amask a))) = count_ma a"
proof -
  have "length (filter (\<lambda>b. b) m) + length (filter (\<lambda>b. \<not> b) m) = length m"
    for m :: "bool list"
    by (induction m) auto
  from this [of "amask a"] show "well_formed a \<Longrightarrow> ?thesis"
    by (simp add: well_formed_def count_ma_def)
qed

lemma filter_all_below:
  fixes t :: "'a::linorder"
  shows "\<forall>y \<in> set xs. y \<le> t \<Longrightarrow> filter (\<lambda>y. y \<le> t) xs = xs"
  by (induction xs) auto

text \<open>
  C9, as stated, fails for \<open>side='right'\<close>. The sorted target \<open>[1, X]\<close> of unsigned
  8-bit integers has one unmasked element; the masked query \<open>[X]\<close> of the same datatype
  receives the index 2, the length of the target, and not 1.
\<close>

theorem searchsorted_right_counterexample:
  "searchsorted \<lparr>minvals = Some 0, maxvals = Some (- 1 :: 8 word), kind = IntegerK\<rparr>
     \<lparr>minvals = Some 0, maxvals = Some (- 1 :: 8 word), kind = IntegerK\<rparr>
     (Masked_Array \<lparr>adata = [1, 9], amask = [False, True]\<rparr>)
     \<lparr>adata = [0], amask = [True]\<rparr> ''right'' = Inr [2]
   \<and> count_ma \<lparr>adata = [1, 9 :: 8 word], amask = [False, True]\<rparr> = 1"
  by (simp add: searchsorted_def filled_def get_fill_value_def min_filler_def np_setmask_def
        np_searchsorted_def count_ma_def)

text \<open>
  C9, amended. Let the target \<open>a\<close> and the query \<open>v\<close> be well-formed masked arrays whose
  datatypes have the min-fillers \<open>ta\<close> and \<open>tv\<close>, and let \<open>a\<close> be sorted (its
  min-filled data are in non-decreasing order). \<open>searchsorted\<close> returns one index for
  every query entry, found in the min-filled data of \<open>a\<close> for the min-filled query. With
  \<open>side='left'\<close> a masked query entry receives the number of unmasked elements of \<open>a\<close>.
  With \<open>side='right'\<close> a masked query entry receives the number of elements of the
  min-filled target that are not above the query's min-filler \<open>tv\<close>; this is the length
  of \<open>a\<close>, the index after all elements of \<open>a\<close>, the masked ones included, whenever no
  element of the min-filled target is above \<open>tv\<close>, as for a target and a query of one
  integer datatype. The number of unmasked elements of \<open>a\<close> is what an unmasked query
  entry equal to \<open>tv\<close> receives with \<open>side='right'\<close>.
\<close>

theorem searchsorted_masked_queries:
  fixes a v :: "('a::{linorder,zero}) MaskedArray"
  assumes "well_formed a" "well_formed v"
    and "min_filler dta = Some ta" "min_filler dtv = Some tv"
    and "sorted (np_setmask (adata a) (amask a) ta)"
  shows "(\<exists>inds. searchsorted dta dtv (Masked_Array a) v ''left'' = Inr inds
            \<and> length inds = length (adata v)
            \<and> (\<forall>i < length (adata v).
                  inds ! i = (if amask v ! i then count_ma a
                              else int (length (filter (\<lambda>y. y < adata v ! i)
                                     (np_setmask (adata a) (amask a) ta))))))
       \<and> (\<exists>inds. searchsorted dta dtv (Masked_Array a) v ''right'' = Inr inds
            \<and> length inds = length (adata v)
            \<and> (\<forall>i < length (adata v).
                  inds ! i = (if amask v ! i
                              then int (length (filter (\<lambda>y. y \<le> tv)
                                     (np_setmask (adata a) (amask a) ta)))
                              else if adata v ! i = tv then count_ma a
                              else int (length (filter (\<lambda>y. y \<le> adata v ! i)
                                     (np_setmask (adata a) (amask a) ta))))))
       \<and> ((\<forall>y \<in> set (np_setmask (adata a) (amask a) ta). y \<le> tv) \<longrightarrow>
            int (length (filter (\<lambda>y. y \<le> tv) (np_setmask (adata a) (amask a) ta)))
              = int (length (adata a)))"
proof -
  let ?aval = "np_setmask (adata a) (amask a) ta"
  let ?vd = "np_setmask (adata v) (amask v) tv"
  have lv: "length (amask v) = length (adata v)"
    and la: "length (amask a) = length (adata a)"
    using assms(1,2) by (simp_all add: well_formed_def)
  have ml: "int (length (adata a)) - int (length (filter (\<lambda>b. b) (amask a))) = count_ma a"
    using assms(1) by (rule count_ma_alt)
  have L: "searchsorted dta dtv (Masked_Array a) v ''left''
      = Inr (np_setmask (map (\<lambda>x. int (length (filter (\<lambda>y. y < x) ?aval))) ?vd)
               (amask v) (count_ma a))"
    by (simp add: searchsorted_def filled_min [OF assms(3)] filled_min [OF assms(4)]
          np_searchsorted_def ml)
  have R: "searchsorted dta dtv (Masked_Array a) v ''right''
      = Inr (np_setmask (map (\<lambda>x. int (length (filter (\<lambda>y. y \<le> x) ?aval))) ?vd)
               (map2 (\<lambda>x m. x = tv \<and> \<not> m) ?vd (amask v)) (count_ma a))"
    by (simp add: searchsorted_def filled_min [OF assms(3)] filled_min [OF assms(4)]
          np_searchsorted_def ml assms(4))
  have top: "(\<forall>y \<in> set ?aval. y \<le> tv) \<longrightarrow>
      int (length (filter (\<lambda>y. y \<le> tv) ?aval)) = int (length (adata a))"
    using filter_all_below [of ?aval tv] la by auto
  show ?thesis
    unfolding L R using lv top
    by (auto simp: nth_np_setmask)
qed

theorem searchsorted_masked_queries_witness:
  "well_formed \<lparr>adata = [1, 9 :: 8 word], amask = [False, True]\<rparr>
   \<and> well_formed \<lparr>adata = [0 :: 8 word], amask = [True]\<rparr>
   \<and> min_filler \<lparr>minvals = Some 0, maxvals = Some (- 1 :: 8 word), kind = IntegerK\<rparr>
       = Some (- 1)
   \<and> sorted (np_setmask [1, 9 :: 8 word] [False, True] (- 1))
   \<and> searchsorted \<lparr>minvals = Some 0, maxvals = Some (- 1 :: 8 word), kind = IntegerK\<rparr>
        \<lparr>minvals = Some 0, maxvals = Some (- 1 :: 8 word), kind = IntegerK\<rparr>
        (Masked_Array \<lparr>adata = [1, 9], amask = [False, True]\<rparr>)
        \<lparr>adata = [0], amask = [True]\<rparr> ''left'' = Inr [1]
   \<and> searchsorted \<lparr>minvals = Some 0, maxvals = Some (- 1 :: 8 word), kind = IntegerK\<rparr>
        \<lparr>minvals = Some 0, maxvals = Some (- 1 :: 8 word), kind = IntegerK\<rparr>
        (Masked_Array \<lparr>adata = [1, 9], amask = [False, True]\<rparr>)
        \<lparr>adata = [0], amask = [True]\<rparr> ''right'' = Inr [2]"
proof -
  let ?a = "\<lparr>adata = [1, 9 :: 8 word], amask = [False, True]\<rparr>"
  let ?v = "\<lparr>adata = [0 :: 8 word], amask = [True]\<rparr>"
  let ?dt = "\<lparr>minvals = Some 0, maxvals = Some (- 1 :: 8 word), kind = IntegerK\<rparr>"
  have wa: "well_formed ?a" and wv: "well_formed ?v" by (simp_all add: well_formed_def)
  have mf: "min_filler ?dt = Some (- 1)" by (simp add: min_filler_def)
  have c: "count_ma ?a = 1" by (simp add: count_ma_def)
  have so: "sorted (np_setmask [1, 9 :: 8 word] [False, True] (- 1))"
    by (simp add: np_setmask_def)
  have so': "sorted (np_setmask (adata ?a) (amask ?a) (- 1))"
    using so by simp
  have below: "\<forall>y \<in> set (np_setmask (adata ?a) (amask ?a) (- 1 :: 8 word)). y \<le> - 1"
    by simp
  note t = searchsorted_masked_queries [OF wa wv mf mf so']
  from t obtain il where il: "searchsorted ?dt ?dt (Masked_Array ?a) ?v ''left'' = Inr il"
    and ll: "length il = length (adata ?v)"
    and nl: "\<forall>i < length (adata ?v). il ! i = (if amask ?v ! i then count_ma ?a
              else int (length (filter (\<lambda>y. y < adata ?v ! i)
                     (np_setmask (adata ?a) (amask ?a) (- 1)))))"
    by blast
  from t obtain ir where ir: "searchsorted ?dt ?dt (Masked_Array ?a) ?v ''right'' = Inr ir"
    and lr: "length ir = length (adata ?v)"
    and nr: "\<forall>i < length (adata ?v). ir ! i = (if amask ?v ! i
              then int (length (filter (\<lambda>y. y \<le> - 1)
                     (np_setmask (adata ?a) (amask ?a) (- 1))))
              else if adata ?v ! i = - 1 then count_ma ?a
              else int (length (filter (\<lambda>y. y \<le> adata ?v ! i)
                     (np_setmask (adata ?a) (amask ?a) (- 1)))))"
    by blast
  from t below
  have full: "int (length (filter (\<lambda>y. y \<le> - 1) (np_setmask (adata ?a) (amask ?a) (- 1 :: 8 word))))
                = int (length (adata ?a))"
    by blast
  from ll have "il = [il ! 0]" by (cases il) auto
  moreover from nl c have "il ! 0 = 1" by simp
  ultimately have l1: "il = [1]" by simp
  from lr have "ir = [ir ! 0]" by (cases ir) auto
  moreover from nr full have "ir ! 0 = 2" by simp
  ultimately have r2: "ir = [2]" by simp
  from il ir l1 r2 wa wv mf so show ?thesis by blast
qed

subsection \<open>Sums, products and kernel reductions\<close>

lemma compressed_record [simp]:
  "compressed \<lparr>adata = adata a, amask = amask a\<rparr> = compressed a"
  by (simp add: compressed_def)

lemma np_all_iff: "np_all (amask a) = all_masked a"
  by (simp add: np_all_def all_masked_def list_all_iff)

lemma count_zero_iff: "count_ma a = 0 \<longleftrightarrow> all_masked a"
  by (auto simp: count_ma_def all_masked_def filter_empty_conv)


lemma foldl_plus_sum_list:
  fixes acc :: "'a::monoid_add"
  shows "foldl (+) acc xs = acc + sum_list xs"
  by (induction xs arbitrary: acc) (simp_all add: add.assoc)

lemma foldl_times_prod_list:
  fixes acc :: "'a::monoid_mult"
  shows "foldl (*) acc xs = acc * prod_list xs"
  by (induction xs arbitrary: acc) (simp_all add: mult.assoc)

lemma sum_list_np_setmask:
  fixes d :: "('a::monoid_add) list"
  shows "length d = length m \<Longrightarrow>
    sum_list (np_setmask d m 0) = sum_list (compressed \<lparr>adata = d, amask = m\<rparr>)"
  by (induction d m rule: list_induct2) (auto simp: np_setmask_def compressed_def)

lemma prod_list_np_setmask:
  fixes d :: "('a::monoid_mult) list"
  shows "length d = length m \<Longrightarrow>
    prod_list (np_setmask d m 1) = prod_list (compressed \<lparr>adata = d, amask = m\<rparr>)"
  by (induction d m rule: list_induct2) (auto simp: np_setmask_def compressed_def)

text \<open>
  \<open>sum\<close> and \<open>prod\<close> of a well-formed masked array return a masked scalar: its data
  is the sum (the product) of the unmasked values, its mask is set exactly when every
  element is masked.
\<close>

lemma sum_ma_result:
  fixes a :: "('a::monoid_add) MaskedArray"
  assumes "well_formed a"
  shows "sum_ma dt a
           = Inr (MScalar \<lparr>sdata = sum_list (compressed a), smask = all_masked a\<rparr>)"
  using assms sum_list_np_setmask [of "adata a" "amask a"]
  by (simp add: sum_ma_def filled_no_minmax maskedarray_or_scalar_def MaskedScalar_init_def
        np_sum_def foldl_plus_sum_list np_all_iff well_formed_def)

lemma prod_ma_result:
  fixes a :: "('a::{monoid_mult,zero}) MaskedArray"
  assumes "well_formed a"
  shows "prod_ma dt a
           = Inr (MScalar \<lparr>sdata = prod_list (compressed a), smask = all_masked a\<rparr>)"
  using assms prod_list_np_setmask [of "adata a" "amask a"]
  by (simp add: prod_ma_def filled_no_minmax maskedarray_or_scalar_def MaskedScalar_init_def
        np_prod_def foldl_times_prod_list np_all_iff well_formed_def)

lemma ufunc_reduce_identity:
  assumes "\<And>x. f e x = x"
  shows "ufunc_reduce f (Some e) xs = Inr (foldl f e xs)"
  using assms by (cases xs) (simp_all add: ufunc_reduce_def)

lemma foldl_np_setmask:
  assumes "\<And>x. f x e = x" "length d = length m"
  shows "foldl f acc (np_setmask d m e) = foldl f acc (compressed \<lparr>adata = d, amask = m\<rparr>)"
  using assms(2)
  by (induction d m arbitrary: acc rule: list_induct2)
     (auto simp: np_setmask_def compressed_def assms(1))

lemma foldl_and: "foldl (\<and>) acc bs = (acc \<and> (\<forall>b \<in> set bs. b))"
  by (induction bs arbitrary: acc) auto

text \<open>
  The \<open>reduce\<close> method of a binary kernel \<open>f\<close> with identity \<open>e\<close>: the masked
  positions hold \<open>e\<close> when the kernel runs, so the result is the reduction of the unmasked
  values; the mask of the result is set exactly when every element is masked.
\<close>

lemma Masked_BinOp_reduce_result:
  assumes "well_formed a" "\<And>x. f e x = x" "\<And>x. f x e = x"
  shows "Masked_BinOp_reduce f (Some e) None a
           = Inr (MScalar \<lparr>sdata = foldl f e (compressed a), smask = all_masked a\<rparr>)"
  using assms(1) foldl_np_setmask [of f e "adata a" "amask a" e, OF assms(3)]
  by (simp add: Masked_BinOp_reduce_def Masked_BinOp_init_def ufunc_reduce_identity assms(2)
        maskedarray_or_scalar_def MaskedScalar_init_def foldl_and all_masked_def
        well_formed_def)

lemma collect_scalars:
  "\<forall>l \<in> set lanes. red l = Inr (MScalar (g l)) \<Longrightarrow>
   collect (map red lanes) = Inr (map (\<lambda>l. MScalar (g l)) lanes)"
  by (induction lanes) auto

lemma lanes_result_scalars:
  "lanes_result (map (\<lambda>l. MScalar (g l)) lanes)
     = \<lparr>adata = map (\<lambda>l. sdata (g l)) lanes, amask = map (\<lambda>l. smask (g l)) lanes\<rparr>"
  by (induction lanes) (auto simp: lanes_result_def)

lemma along_axis_scalars:
  "\<forall>l \<in> set lanes. red l = Inr (MScalar (g l)) \<Longrightarrow>
   along_axis red lanes
     = Inr \<lparr>adata = map (\<lambda>l. sdata (g l)) lanes, amask = map (\<lambda>l. smask (g l)) lanes\<rparr>"
  using collect_scalars [of lanes red g]
  by (simp add: along_axis_def lanes_result_scalars)

text \<open>Along an axis, each lane gives one element of the result.\<close>

lemma sum_ma_along_axis:
  fixes lanes :: "('a::monoid_add) MaskedArray list"
  assumes "\<forall>l \<in> set lanes. well_formed l"
  shows "along_axis (sum_ma dt) lanes
           = Inr \<lparr>adata = map (\<lambda>l. sum_list (compressed l)) lanes,
                  amask = map all_masked lanes\<rparr>"
  using along_axis_scalars
          [of lanes "sum_ma dt" "\<lambda>l. \<lparr>sdata = sum_list (compressed l), smask = all_masked l\<rparr>"]
        assms
  by (simp add: sum_ma_result)

lemma prod_ma_along_axis:
  fixes lanes :: "('a::{monoid_mult,zero}) MaskedArray list"
  assumes "\<forall>l \<in> set lanes. well_formed l"
  shows "along_axis (prod_ma dt) lanes
           = Inr \<lparr>adata = map (\<lambda>l. prod_list (compressed l)) lanes,
                  amask = map all_masked lanes\<rparr>"
  using along_axis_scalars
          [of lanes "prod_ma dt" "\<lambda>l. \<lparr>sdata = prod_list (compressed l), smask = all_masked l\<rparr>"]
        assms
  by (simp add: prod_ma_result)

subsection \<open>Mean\<close>

text \<open>
  For every datatype but half precision, \<open>mean\<close> returns a masked scalar and never a
  division error: the data is the quotient of the zero-filled sum by the count, and the
  mask is set exactly when the count is zero, that is, when every element is masked.
\<close>

lemma mean_result:
  assumes "kind dt \<noteq> Float16"
  shows "mean dt a = Inr (MScalar \<lparr>sdata = mean_value a, smask = (count_ma a = 0)\<rparr>)"
  using assms
  by (simp add: mean_def mean_value_def filled_no_minmax maskedarray_or_scalar_def
        MaskedScalar_init_def np_all_iff count_zero_iff)

lemma mean_along_axis:
  assumes "kind dt \<noteq> Float16"
  shows "along_axis (mean dt) lanes
           = Inr \<lparr>adata = map mean_value lanes, amask = map (\<lambda>l. count_ma l = 0) lanes\<rparr>"
  using along_axis_scalars
          [of lanes "mean dt" "\<lambda>l. \<lparr>sdata = mean_value l, smask = (count_ma l = 0)\<rparr>"]
        assms
  by (simp add: mean_result)

lemma mean_all_masked:
  assumes "kind dt \<noteq> Float16" "all_masked a"
  shows "\<exists>s. mean dt a = Inr (MScalar s) \<and> smask s"
  using assms by (simp add: mean_result count_zero_iff)

lemma mean_float16: "kind dt = Float16 \<Longrightarrow> mean dt a = Inl NameError"
  by (simp add: mean_def filled_no_minmax)

text \<open>
  C3. On the half-precision array \<open>[X]\<close>, all of whose elements are masked, \<open>sum\<close>
  and \<open>prod\<close> give the masked scalars with the identities 0 and 1, and \<open>mean\<close> gives
  no result: it raises \<open>NameError\<close>.
\<close>

theorem mean_all_masked_float16_fails:
  "sum_ma \<lparr>minvals = Some NegInf, maxvals = Some PosInf, kind = Float16\<rparr>
     \<lparr>adata = [Finite 3], amask = [True]\<rparr>
     = Inr (MScalar \<lparr>sdata = Finite 0, smask = True\<rparr>)
   \<and> prod_ma \<lparr>minvals = Some NegInf, maxvals = Some PosInf, kind = Float16\<rparr>
       \<lparr>adata = [Finite 3], amask = [True]\<rparr>
     = Inr (MScalar \<lparr>sdata = Finite 1, smask = True\<rparr>)
   \<and> mean \<lparr>minvals = Some NegInf, maxvals = Some PosInf, kind = Float16\<rparr>
       \<lparr>adata = [Finite 3], amask = [True]\<rparr>
     = Inl NameError"
  by (simp add: sum_ma_def prod_ma_def mean_def filled_no_minmax np_setmask_def np_sum_def
        np_prod_def np_all_def maskedarray_or_scalar_def MaskedScalar_init_def
        zero_f8_def one_f8_def plus_f8_def times_f8_def)

text \<open>
  C5. The mean of the half-precision array \<open>[X, X]\<close>, and the mean along an axis of a
  half-precision array with the lanes \<open>[X, X]\<close> and \<open>[1, X]\<close>, raise \<open>NameError\<close>
  instead of returning a masked result.
\<close>

theorem mean_float16_raises:
  "mean \<lparr>minvals = Some NegInf, maxvals = Some PosInf, kind = Float16\<rparr>
     \<lparr>adata = [Finite 1, Finite 2], amask = [True, True]\<rparr> = Inl NameError
   \<and> along_axis (mean \<lparr>minvals = Some NegInf, maxvals = Some PosInf, kind = Float16\<rparr>)
       [\<lparr>adata = [Finite 1, Finite 2], amask = [True, True]\<rparr>,
        \<lparr>adata = [Finite 1, Finite 2], amask = [False, True]\<rparr>] = Inl NameError"
  by (simp add: mean_def filled_no_minmax along_axis_def)

subsection \<open>Variance\<close>

lemma f8_finite_arith [simp]:
  "Finite p + Finite q = Finite (p + q)"
  "Finite p - Finite q = Finite (p - q)"
  "Finite p * Finite q = Finite (p * q)"
  by (simp_all add: plus_f8_def minus_f8_def times_f8_def)




lemma np_binary_one:
  "np_binary f (Array xs) (Array [c]) = Inr (Array (map (\<lambda>x. f x c) xs))"
proof (cases xs)
  case (Cons x ys)
  then show ?thesis by (cases ys) auto
qed auto

lemma sub_mean_call:
  fixes a :: "f8 MaskedArray"
  assumes "well_formed a"
  shows "Masked_BinOp_call (-) (Masked_Array a) (ndarray [c])
           = Inr (MArray \<lparr>adata = map (\<lambda>x. x - c) (adata a), amask = amask a\<rparr>)"
proof -
  have d: "np_binary (-) (Array (adata a)) (Array [c])
             = Inr (Array (map (\<lambda>x. x - c) (adata a)))"
    by (rule np_binary_one)
  have m: "np_binary (\<or>) (Array (amask a)) (Scalar False) = Inr (Array (amask a))"
    by simp
  show ?thesis
    using assms
    by (simp add: Masked_BinOp_call_def BinOp_result_def d m get_mask_cls_def
          maskedarray_or_scalar_def MaskedArray_init_def well_formed_def
          del: np_binary.simps)
qed

lemma square_call:
  fixes x :: "f8 MaskedArray"
  assumes "well_formed x"
  shows "Masked_BinOp_call (*) (Masked_Array x) (Masked_Array x)
           = Inr (MArray \<lparr>adata = map (\<lambda>v. v * v) (adata x), amask = amask x\<rparr>)"
proof -
  have 1: "map2 (*) xs xs = map (\<lambda>v. v * v) xs" for xs :: "f8 list"
    by (induction xs) auto
  have 2: "map2 (\<or>) bs bs = bs" for bs
    by (induction bs) auto
  show ?thesis
    using assms Masked_BinOp_call_arrays [of x x "(*)"] by (simp add: 1 2)
qed

lemma var_result:
  fixes a :: "f8 MaskedArray"
  assumes "well_formed a"
  shows "var dt a ddof
           = Inr (MScalar \<lparr>sdata = var_value a ddof, smask = (count_ma a \<le> ddof)\<rparr>)"
proof -
  let ?c = "true_divide (np_sum (np_setmask (adata a) (amask a) 0)) (count_ma a)"
  let ?x = "\<lparr>adata = map (\<lambda>x. x - ?c) (adata a), amask = amask a\<rparr>"
  have wx: "well_formed ?x" using assms by (simp add: well_formed_def)
  have m: "(max (count_ma a - ddof) 0 = 0) = (count_ma a \<le> ddof)" by auto
  show ?thesis
    using sub_mean_call [OF assms, of ?c] square_call [OF wx]
    by (simp add: var_def var_value_def mean_value_def filled_sum_def filled_no_minmax
          maskedarray_or_scalar_def MaskedScalar_init_def m sqdev_def [abs_def] o_def)
qed




subsection \<open>Linear algebra\<close>

lemma foldl_or: "foldl (\<or>) acc bs = (acc \<or> (\<exists>b \<in> set bs. b))"
  by (induction bs arbitrary: acc) auto

lemma ex_less_Suc: "(\<exists>i < Suc n. P i) = (P 0 \<or> (\<exists>i < n. P (Suc i)))"
  by (auto simp: less_Suc_eq_0_disj)

lemma valid_pair_iff:
  "length ma = length mb \<Longrightarrow>
   (\<exists>b \<in> set (map2 (\<and>) (map Not ma) (map Not mb)). b)
     = (\<exists>i < length ma. \<not> ma ! i \<and> \<not> mb ! i)"
  by (induction ma mb rule: list_induct2) (simp_all add: ex_less_Suc)

text \<open>
  \<open>dot\<close> of two well-formed masked vectors of the same length returns a masked scalar:
  the data is the sum of the products of the zero-filled data, and the mask is set exactly
  when no product has two unmasked factors. Next to a plain vector, the mask is set
  exactly when every element of the masked vector is masked.
\<close>

lemma dot_result:
  fixes a b :: "('a::{plus,times,zero}) MaskedArray"
  assumes "well_formed a" "well_formed b" "length (adata a) = length (adata b)"
  shows "dot dt (Masked_Vector a) (Masked_Vector b)
           = Inr (MScalar
               \<lparr>sdata = foldl (+) 0 (map2 (*) (np_setmask (adata a) (amask a) 0)
                                                  (np_setmask (adata b) (amask b) 0)),
                smask = (\<not> (\<exists>i < length (adata a). \<not> amask a ! i \<and> \<not> amask b ! i))\<rparr>)"
  using assms valid_pair_iff [of "amask a" "amask b"]
  by (simp add: dot_def get_mask_cls_def filled_no_minmax np_dot_def well_formed_def
        maskedarray_or_scalar_def MaskedScalar_init_def foldl_or)

lemma dot_plain_result:
  fixes a :: "('a::{plus,times,zero}) MaskedArray"
  assumes "well_formed a" "length (adata a) = length ys"
  shows "dot dt (Masked_Vector a) (Plain_Vector ys)
           = Inr (MScalar
               \<lparr>sdata = foldl (+) 0 (map2 (*) (np_setmask (adata a) (amask a) 0) ys),
                smask = (\<not> (\<exists>i < length (adata a). \<not> amask a ! i))\<rparr>)"
proof -
  have s: "np_setmask ys (replicate (length ys) False) 0 = ys"
    by (induction ys) (auto simp: np_setmask_def)
  have v: "(\<exists>b \<in> set (map2 (\<and>) (map Not (amask a))
                       (map Not (replicate (length ys) False))). b)
         = (\<exists>i < length (adata a). \<not> amask a ! i)"
    using assms valid_pair_iff [of "amask a" "replicate (length ys) False"]
    by (auto simp: well_formed_def)
  show ?thesis
    using assms v
    by (simp add: dot_def get_mask_cls_def filled_no_minmax np_dot_def well_formed_def
        maskedarray_or_scalar_def MaskedScalar_init_def foldl_or MaskedArray_init_def s)
qed

text \<open>
  C8. On the vectors \<open>[1, 2]\<close> and \<open>[3, X]\<close>, \<open>dot\<close> gives the unmasked scalar 3
  (the masked factor counts as 0, and the first product has two unmasked factors), while
  \<open>tensordot\<close> with \<open>axes=1\<close>, which is the same contraction, gives no result: it
  raises \<open>NameError\<close>.
\<close>

theorem tensordot_raises:
  "tensordot \<lparr>adata = [1, 2 :: int], amask = [False, False]\<rparr>
     \<lparr>adata = [3, 4], amask = [False, True]\<rparr> 1 = Inl NameError
   \<and> dot \<lparr>minvals = None, maxvals = None, kind = IntegerK\<rparr>
       (Masked_Vector \<lparr>adata = [1, 2 :: int], amask = [False, False]\<rparr>)
       (Masked_Vector \<lparr>adata = [3, 4], amask = [False, True]\<rparr>)
     = Inr (MScalar \<lparr>sdata = 3, smask = False\<rparr>)"
proof
  show "tensordot \<lparr>adata = [1, 2 :: int], amask = [False, False]\<rparr>
          \<lparr>adata = [3, 4], amask = [False, True]\<rparr> 1 = Inl NameError"
    by (simp add: tensordot_def)
  show "dot \<lparr>minvals = None, maxvals = None, kind = IntegerK\<rparr>
          (Masked_Vector \<lparr>adata = [1, 2 :: int], amask = [False, False]\<rparr>)
          (Masked_Vector \<lparr>adata = [3, 4], amask = [False, True]\<rparr>)
        = Inr (MScalar \<lparr>sdata = 3, smask = False\<rparr>)"
    by (simp add: dot_def get_mask_cls_def filled_no_minmax np_dot_def
          np_setmask_def maskedarray_or_scalar_def MaskedScalar_init_def)
qed

subsection \<open>Masked data and results\<close>

lemma agree_setmask_map:
  assumes "agree a b" "well_formed a"
  shows "np_setmask (map g (adata a)) (amask a) v = np_setmask (map g (adata b)) (amask b) v"
  using assms
  by (intro nth_equalityI) (auto simp: agree_def well_formed_def nth_np_setmask)

lemma agree_setmask:
  assumes "agree a b" "well_formed a"
  shows "np_setmask (adata a) (amask a) v = np_setmask (adata b) (amask b) v"
  using agree_setmask_map [OF assms, of "\<lambda>x. x" v] by simp

lemma agree_filled:
  assumes "agree a b" "well_formed a"
  shows "filled dt a fv mm = filled dt b fv mm"
  using agree_setmask [OF assms] by (simp add: filled_def split: sum.splits)

lemma agree_mask: "agree a b \<Longrightarrow> amask a = amask b"
  by (simp add: agree_def)

lemma agree_count: "agree a b \<Longrightarrow> count_ma a = count_ma b"
  by (simp add: agree_def count_ma_def)

lemma agree_well_formed: "agree a b \<Longrightarrow> well_formed a \<Longrightarrow> well_formed b"
  by (simp add: agree_def well_formed_def)

lemma agree_var_value:
  assumes "agree a b" "well_formed a"
  shows "var_value a ddof = var_value b ddof"
proof -
  have m: "mean_value a = mean_value b"
    using agree_setmask [OF assms] agree_count [OF assms(1)] by (simp add: mean_value_def)
  have s: "np_setmask (map (sqdev (mean_value b)) (adata a)) (amask a) 0
         = np_setmask (map (sqdev (mean_value b)) (adata b)) (amask b) 0"
    by (rule agree_setmask_map [OF assms])
  show ?thesis
    using agree_count [OF assms(1)] by (simp add: var_value_def m s)
qed

text \<open>
  The operations that fill the masked positions before the kernel runs give the same
  outcome (the same result or the same error) for two well-formed arrays that differ only
  in their masked data: sums, products, kernel reductions, sorting, searching (in the
  target and in the query), the dot product, the mean and the variance.
\<close>

lemma agree_nothing_masked:
  assumes "agree a b" "well_formed a" "\<not> list_ex (\<lambda>b. b) (amask a)"
  shows "adata a = adata b"
proof (rule nth_equalityI)
  show "length (adata a) = length (adata b)"
    using assms(1) by (simp add: agree_def)
next
  fix i
  assume i: "i < length (adata a)"
  then have "i < length (amask a)"
    using assms(2) by (simp add: well_formed_def)
  then have "amask a ! i \<in> set (amask a)"
    by (rule nth_mem)
  then have "\<not> amask a ! i"
    using assms(3) unfolding list_ex_iff by blast
  then show "adata a ! i = adata b ! i"
    using assms(1) i by (simp add: agree_def)
qed

lemma agree_length: "agree a b \<Longrightarrow> length (adata a) = length (adata b)"
  by (simp add: agree_def)

lemma noninterference_filling:
  assumes "agree a b" "well_formed a"
  shows "sum_ma dt a = sum_ma dt b"
    and "prod_ma dt' a = prod_ma dt' b"
    and "Masked_BinOp_reduce f identity reduce_fill a
           = Masked_BinOp_reduce f identity reduce_fill b"
    and "sort_ma dto a = sort_ma dto b"
    and "MaskedArray_sort dto stored_None a = MaskedArray_sort dto stored_None b"
    and "searchsorted dto dtv (Masked_Array a) v side
           = searchsorted dto dtv (Masked_Array b) v side"
    and "searchsorted dta dto c a side = searchsorted dta dto c b side"
    and "dot dt'' (Masked_Vector a) c' = dot dt'' (Masked_Vector b) c'"
    and "dot dt'' c' (Masked_Vector a) = dot dt'' c' (Masked_Vector b)"
proof -
  note fl = agree_filled [OF assms]
  note m = agree_mask [OF assms(1)]
  note l = agree_length [OF assms(1)]
  have s: "np_setmask (adata a) (amask b) v = np_setmask (adata b) (amask b) v" for v
    using agree_setmask [OF assms, of v] m by simp
  show "sum_ma dt a = sum_ma dt b"
    by (simp add: sum_ma_def fl m cong: sum.case_cong)
  show "prod_ma dt' a = prod_ma dt' b"
    by (simp add: prod_ma_def fl m cong: sum.case_cong)
  show "Masked_BinOp_reduce f identity reduce_fill a
          = Masked_BinOp_reduce f identity reduce_fill b"
    by (simp add: Masked_BinOp_reduce_def m s cong: sum.case_cong option.case_cong)
  show "sort_ma dto a = sort_ma dto b"
    by (simp add: sort_ma_def fl m cong: sum.case_cong)
  show "MaskedArray_sort dto stored_None a = MaskedArray_sort dto stored_None b"
  proof (cases "list_ex (\<lambda>b. b) (amask a)")
    case True
    then show ?thesis
      by (simp add: MaskedArray_sort_def m s cong: option.case_cong)
  next
    case False
    from agree_nothing_masked [OF assms False] show ?thesis
      by (simp add: MaskedArray_sort_def m cong: option.case_cong)
  qed
  show "searchsorted dto dtv (Masked_Array a) v side
          = searchsorted dto dtv (Masked_Array b) v side"
    by (simp add: searchsorted_def fl m l cong: sum.case_cong option.case_cong)
  show "searchsorted dta dto c a side = searchsorted dta dto c b side"
    unfolding searchsorted_def fl m by (rule refl)
  show "dot dt'' (Masked_Vector a) c' = dot dt'' (Masked_Vector b) c'"
    by (simp add: dot_def fl m get_mask_cls_def cong: sum.case_cong)
  show "dot dt'' c' (Masked_Vector a) = dot dt'' c' (Masked_Vector b)"
    by (simp add: dot_def fl m get_mask_cls_def cong: sum.case_cong)
qed

lemma noninterference_mean_var:
  assumes "agree a b" "well_formed a"
  shows "mean dtf a = mean dtf b" and "var dtf a ddof = var dtf b ddof"
  using agree_filled [OF assms] agree_mask [OF assms(1)] agree_count [OF assms(1)]
        var_result [OF assms(2)] var_result [OF agree_well_formed [OF assms]]
        agree_var_value [OF assms]
  by (simp_all add: mean_def split: sum.splits)

text \<open>
  The elementwise operations run the kernel on the stored data, masked or not; their
  results differ only under the mask of the result.
\<close>

lemma noninterference_unary:
  assumes "agree a b" "well_formed a"
  shows "\<exists>r r'. Masked_UniOp_call f (MArray a) = Inr (MArray r)
           \<and> Masked_UniOp_call f (MArray b) = Inr (MArray r') \<and> agree r r'"
  using assms
  by (simp add: Masked_UniOp_call_def maskedarray_or_scalar_def MaskedArray_init_def
        agree_def well_formed_def)

lemma noninterference_binary:
  assumes "agree a b" "well_formed a" "agree c d" "well_formed c"
    and "length (adata a) = length (adata c)"
  shows "\<exists>r r'. Masked_BinOp_call f (Masked_Array a) (Masked_Array c) = Inr (MArray r)
           \<and> Masked_BinOp_call f (Masked_Array b) (Masked_Array d) = Inr (MArray r')
           \<and> agree r r'"
proof -
  have wb: "well_formed b" and wd: "well_formed d"
    using assms by (auto intro: agree_well_formed)
  have l: "length (adata b) = length (adata d)"
    using assms by (simp add: agree_def)
  show ?thesis
    using assms
    by (simp add: Masked_BinOp_call_arrays [OF assms(2,4,5)]
          Masked_BinOp_call_arrays [OF wb wd l] agree_def well_formed_def)
qed

lemma noninterference_binary_scalar:
  assumes "agree a b" "well_formed a"
  shows "\<exists>r r'. Masked_BinOp_call f (Masked_Array a) (Masked_Scalar s) = Inr (MArray r)
           \<and> Masked_BinOp_call f (Masked_Array b) (Masked_Scalar s) = Inr (MArray r')
           \<and> agree r r'"
  using assms
  by (simp add: Masked_BinOp_call_def BinOp_result_def get_mask_cls_def
        maskedarray_or_scalar_def MaskedArray_init_def agree_def well_formed_def)

text \<open>
  C1. The two key arrays \<open>[X, X]\<close> with the stored data \<open>[2, 1]\<close> and \<open>[1, 2]\<close>
  have the same mask and differ only in the data under it; \<open>lexsort\<close> returns the
  index array \<open>[1, 0]\<close> for the first and \<open>[0, 1]\<close> for the second.
\<close>

theorem lexsort_reads_masked_data:
  "lexsort [\<lparr>adata = [2, 1 :: int], amask = [True, True]\<rparr>] = Inr [1, 0]
   \<and> lexsort [\<lparr>adata = [1, 2 :: int], amask = [True, True]\<rparr>] = Inr [0, 1]"
  by (simp add: lexsort_def np_lexsort_step_def upt_rec)

end
